theory Spec2Isabelle
  imports Complex_Main "HOL-Library.Word"
begin

section \<open>Python values used by the handlers\<close>

text \<open>
  A Python \<open>float\<close>: a finite value, one of the two infinities, or NaN. The request
  schema types \<open>radius\<close>, \<open>spacing\<close> and \<open>angle_deg\<close> as \<open>float\<close>, so all four
  kinds of value reach the handlers.
\<close>

datatype pyfloat = Finite real | PosInf | NegInf | NaN

text \<open>A raised Python exception: its class name and \<open>str(e)\<close>.\<close>

datatype exn = Exn (exn_class: string) (exn_msg: string)

text \<open>
  What leaves a handler instead of a response: an \<open>HTTPException\<close> the handler
  raised itself (status code and detail), or any other exception, which the handler
  did not catch.
\<close>

datatype herror = HTTPException (status_code: nat) (detail: string) | Unhandled exn

type_synonym byte = "8 word"

text \<open>The comparison \<open>x > 0\<close> of the schema's \<open>Field(..., gt=0)\<close>.\<close>

fun float_gt0 :: "pyfloat \<Rightarrow> bool" where
  "float_gt0 (Finite r) = (0 < r)"
| "float_gt0 PosInf = True"
| "float_gt0 NegInf = False"
| "float_gt0 NaN = False"

text \<open>
  \<open>int(x)\<close> on a float truncates towards zero; it raises \<open>OverflowError\<close> on an
  infinity and \<open>ValueError\<close> on NaN.
\<close>

fun float_int :: "pyfloat \<Rightarrow> exn + int" where
  "float_int (Finite r) = Inr (if r < 0 then - \<lfloor>- r\<rfloor> else \<lfloor>r\<rfloor>)"
| "float_int PosInf = Inl (Exn ''OverflowError'' ''cannot convert float infinity to integer'')"
| "float_int NegInf = Inl (Exn ''OverflowError'' ''cannot convert float infinity to integer'')"
| "float_int NaN = Inl (Exn ''ValueError'' ''cannot convert float NaN to integer'')"

text \<open>\<open>str(n)\<close> of a Python \<open>int\<close>: decimal digits, with a leading minus sign.\<close>

definition digit_char :: "nat \<Rightarrow> char" where
  "digit_char d = ''0123456789'' ! d"

text \<open>\<open>digit_char\<close> is only applied to a number below 10.\<close>

fun str_nat :: "nat \<Rightarrow> string" where
  "str_nat n = (if n < 10 then [digit_char n] else str_nat (n div 10) @ [digit_char (n mod 10)])"

declare str_nat.simps [simp del]

definition str_int :: "int \<Rightarrow> string" where
  "str_int i = (if i < 0 then CHR ''-'' # str_nat (nat (- i)) else str_nat (nat i))"

subsection \<open>String methods\<close>

text \<open>
  \<open>str.lower()\<close>. A string is its UTF-8 bytes; the letters \<open>A\<close> to \<open>Z\<close> are
  mapped to \<open>a\<close> to \<open>z\<close> and every other byte is kept.
\<close>

definition lower_char :: "char \<Rightarrow> char" where
  "lower_char c =
     (case map_of (zip ''ABCDEFGHIJKLMNOPQRSTUVWXYZ'' ''abcdefghijklmnopqrstuvwxyz'') c of
        Some l \<Rightarrow> l
      | None \<Rightarrow> c)"

definition lower :: "string \<Rightarrow> string" where
  "lower s = map lower_char s"

definition endswith :: "string \<Rightarrow> string \<Rightarrow> bool" where
  "endswith s suffix =
     (length suffix \<le> length s \<and> drop (length s - length suffix) s = suffix)"

text \<open>
  \<open>s.rsplit(sep, 1)\<close> for a non-empty \<open>sep\<close>: the string is cut at the rightmost
  occurrence of \<open>sep\<close>, compared character by character; without an occurrence the
  result is the one-element list \<open>[s]\<close>.
\<close>

fun rfind_from :: "string \<Rightarrow> string \<Rightarrow> nat \<Rightarrow> nat option" where
  "rfind_from sep s 0 = (if take (length sep) s = sep then Some 0 else None)"
| "rfind_from sep s (Suc k) =
     (if take (length sep) (drop (Suc k) s) = sep then Some (Suc k) else rfind_from sep s k)"

definition rfind :: "string \<Rightarrow> string \<Rightarrow> nat option" where
  "rfind sep s =
     (if length sep \<le> length s then rfind_from sep s (length s - length sep) else None)"

definition rsplit1 :: "string \<Rightarrow> string \<Rightarrow> string list" where
  "rsplit1 sep s =
     (case rfind sep s of
        None \<Rightarrow> [s]
      | Some i \<Rightarrow> [take i s, drop (i + length sep) s])"

section \<open>The drawing document\<close>

text \<open>
  The document object of the drawing library, as far as the handlers touch it: the
  header variables, the names of the layer table's entries in table order, and the
  entities of the model space in stored order.
\<close>

type_synonym point = "pyfloat list"

datatype hvalue = HInt int | HStr string

record pattern =
  pat_name :: string
  pat_angle :: pyfloat
  pat_scale :: pyfloat

datatype boundary_path = CirclePath point pyfloat

record hatch =
  hatch_layer :: string
  associative :: bool
  paths :: "boundary_path list"
  pattern_fill :: "pattern option"

datatype entity =
    Circle point pyfloat string
  | Hatch hatch
  | Other string

fun dxftype :: "entity \<Rightarrow> string" where
  "dxftype (Circle c r l) = ''CIRCLE''"
| "dxftype (Hatch h) = ''HATCH''"
| "dxftype (Other t) = t"

record document =
  header :: "string \<rightharpoonup> hvalue"
  layers :: "string list"
  msp :: "entity list"

text \<open>
  \<open>e.dxf.center\<close> and \<open>e.dxf.radius\<close>: defined for a circle; the library raises for
  an entity type that has no such attribute.
\<close>

fun dxf_center :: "entity \<Rightarrow> exn + point" where
  "dxf_center (Circle c r l) = Inr c"
| "dxf_center e = Inl (Exn ''DXFAttributeError'' ''center'')"

fun dxf_radius :: "entity \<Rightarrow> exn + pyfloat" where
  "dxf_radius (Circle c r l) = Inr r"
| "dxf_radius e = Inl (Exn ''DXFAttributeError'' ''radius'')"

section \<open>The drawing library and the effects of a handler\<close>

text \<open>
  Every call into the drawing library is recorded, with its arguments, in the order
  the handler makes it: \<open>Lib c\<close> for a call that returned, \<open>Raised c x\<close> for a call
  that raised the exception \<open>x\<close>. Reading the uploaded file is recorded too.
\<close>

datatype libcall =
    Ezdxf_new string
  | Ezdxf_read "byte list"
  | Header_set string hvalue
  | Layers_new string
  | Msp_add_circle point pyfloat string
  | Msp_add_hatch string
  | Set_associative bool
  | Boundary_add_circle point pyfloat
  | Set_pattern_fill string pyfloat pyfloat
  | Saveas document

datatype event = File_read | Lib libcall | Raised libcall exn

fun call_of :: "event \<Rightarrow> libcall option" where
  "call_of File_read = None"
| "call_of (Lib c) = Some c"
| "call_of (Raised c x) = Some c"

text \<open>The library calls of a trace, in order.\<close>

definition calls :: "event list \<Rightarrow> libcall list" where
  "calls t = List.map_filter call_of t"

text \<open>
  The library is external to the repository, so its behaviour is a parameter:
  \<^item> \<open>ez_new version\<close> is \<open>ezdxf.new(setup=True, version=version)\<close>: a fresh document or
    an exception;
  \<^item> \<open>ez_read content\<close> is \<open>ezdxf.read(io.BytesIO(content))\<close>: the parsed document or
    the parser's exception;
  \<^item> \<open>ez_saveas doc\<close> is the byte string \<open>doc.saveas(buf)\<close> writes, or an exception;
  \<^item> \<open>ez_key\<close> is the normalisation of a layer name under which the layer table looks
    names up (\<open>name in doc.layers\<close>);
  \<^item> \<open>ez_fault call doc\<close> says whether one of the other calls raises in the document
    state \<open>doc\<close>; when it does not, the call has the effect written out below.
  \<open>float_str\<close> is the text an f-string gives a float.
\<close>

record env =
  ez_new :: "string \<Rightarrow> exn + document"
  ez_read :: "byte list \<Rightarrow> exn + document"
  ez_saveas :: "document \<Rightarrow> exn + byte list"
  ez_key :: "string \<Rightarrow> string"
  ez_fault :: "libcall \<Rightarrow> document \<Rightarrow> exn option"
  float_str :: "pyfloat \<Rightarrow> string"

text \<open>
  A computation of a handler: its outcome (an error or a value) and the events it
  performed. An error ends the computation, as a raised exception does.
\<close>

type_synonym 'a act = "(herror + 'a) \<times> event list"

definition ret :: "'a \<Rightarrow> 'a act" where
  "ret x = (Inr x, [])"

definition raise_err :: "herror \<Rightarrow> 'a act" where
  "raise_err e = (Inl e, [])"

definition then_do :: "'a act \<Rightarrow> ('a \<Rightarrow> 'b act) \<Rightarrow> 'b act" where
  "then_do m f =
     (case m of
        (Inl e, t) \<Rightarrow> (Inl e, t)
      | (Inr x, t) \<Rightarrow> (case f x of (r, t') \<Rightarrow> (r, t @ t')))"

text \<open>An uncaught exception of a Python built-in.\<close>

definition py :: "exn + 'a \<Rightarrow> 'a act" where
  "py r = (case r of Inl x \<Rightarrow> raise_err (Unhandled x) | Inr v \<Rightarrow> ret v)"

text \<open>A library call whose effect on success is \<open>result\<close>.\<close>

definition lib_call :: "env \<Rightarrow> libcall \<Rightarrow> document \<Rightarrow> 'a \<Rightarrow> 'a act" where
  "lib_call L c doc result =
     (case ez_fault L c doc of
        Some x \<Rightarrow> (Inl (Unhandled x), [Raised c x])
      | None \<Rightarrow> (Inr result, [Lib c]))"

definition ezdxf_new :: "env \<Rightarrow> string \<Rightarrow> document act" where
  "ezdxf_new L version =
     (case ez_new L version of
        Inl x \<Rightarrow> (Inl (Unhandled x), [Raised (Ezdxf_new version) x])
      | Inr doc \<Rightarrow> (Inr doc, [Lib (Ezdxf_new version)]))"

text \<open>
  \<open>ezdxf.read\<close> inside a \<open>try\<close> block: the exception is handed to the \<open>except\<close>
  clause as a value.
\<close>

definition ezdxf_read :: "env \<Rightarrow> byte list \<Rightarrow> (exn + document) act" where
  "ezdxf_read L content =
     (case ez_read L content of
        Inl x \<Rightarrow> (Inr (Inl x), [Raised (Ezdxf_read content) x])
      | Inr doc \<Rightarrow> (Inr (Inr doc), [Lib (Ezdxf_read content)]))"

subsection \<open>The byte buffer\<close>

record bytesio =
  data :: "byte list"
  pos :: nat

definition BytesIO :: bytesio where
  "BytesIO = \<lparr>data = [], pos = 0\<rparr>"

definition bytesio_write :: "bytesio \<Rightarrow> byte list \<Rightarrow> bytesio" where
  "bytesio_write buf bs =
     \<lparr>data = take (pos buf) (data buf) @ bs @ drop (pos buf + length bs) (data buf),
      pos = pos buf + length bs\<rparr>"

definition seek :: "bytesio \<Rightarrow> nat \<Rightarrow> bytesio" where
  "seek buf n = buf\<lparr>pos := n\<rparr>"

text \<open>What a reader of the buffer gets: the bytes from the current position on.\<close>

definition bytesio_read :: "bytesio \<Rightarrow> byte list" where
  "bytesio_read buf = drop (pos buf) (data buf)"

definition saveas :: "env \<Rightarrow> document \<Rightarrow> bytesio \<Rightarrow> bytesio act" where
  "saveas L doc buf =
     (case ez_saveas L doc of
        Inl x \<Rightarrow> (Inl (Unhandled x), [Raised (Saveas doc) x])
      | Inr bs \<Rightarrow> (Inr (bytesio_write buf bs), [Lib (Saveas doc)]))"

subsection \<open>Layer table and model space\<close>

text \<open>\<open>name in doc.layers\<close>.\<close>

definition has_layer :: "env \<Rightarrow> string \<Rightarrow> document \<Rightarrow> bool" where
  "has_layer L name doc = (ez_key L name \<in> set (map (ez_key L) (layers doc)))"

definition layers_new :: "env \<Rightarrow> string \<Rightarrow> document \<Rightarrow> document act" where
  "layers_new L name doc =
     lib_call L (Layers_new name) doc (doc\<lparr>layers := layers doc @ [name]\<rparr>)"

definition msp_add_circle ::
    "env \<Rightarrow> point \<Rightarrow> pyfloat \<Rightarrow> string \<Rightarrow> document \<Rightarrow> document act" where
  "msp_add_circle L center radius layer doc =
     lib_call L (Msp_add_circle center radius layer) doc
       (doc\<lparr>msp := msp doc @ [Circle center radius layer]\<rparr>)"

text \<open>
  \<open>msp.add_hatch\<close> returns the new hatch object, which stays in the model space while
  the handler changes it: the object is its index in the model space.
\<close>

definition msp_add_hatch :: "env \<Rightarrow> string \<Rightarrow> document \<Rightarrow> (document \<times> nat) act" where
  "msp_add_hatch L layer doc =
     lib_call L (Msp_add_hatch layer) doc
       (doc\<lparr>msp := msp doc @
            [Hatch \<lparr>hatch_layer = layer, associative = False, paths = [],
                    pattern_fill = None\<rparr>]\<rparr>,
        length (msp doc))"

fun upd_hatch :: "(hatch \<Rightarrow> hatch) \<Rightarrow> entity \<Rightarrow> entity" where
  "upd_hatch f (Hatch h) = Hatch (f h)"
| "upd_hatch f e = e"

definition at_hatch :: "nat \<Rightarrow> (hatch \<Rightarrow> hatch) \<Rightarrow> document \<Rightarrow> document" where
  "at_hatch i f doc =
     (if i < length (msp doc) then doc\<lparr>msp := (msp doc)[i := upd_hatch f (msp doc ! i)]\<rparr>
      else doc)"

definition set_associative :: "env \<Rightarrow> nat \<Rightarrow> bool \<Rightarrow> document \<Rightarrow> document act" where
  "set_associative L h flag doc =
     lib_call L (Set_associative flag) doc (at_hatch h (\<lambda>x. x\<lparr>associative := flag\<rparr>) doc)"

definition boundary_add_circle ::
    "env \<Rightarrow> nat \<Rightarrow> point \<Rightarrow> pyfloat \<Rightarrow> document \<Rightarrow> document act" where
  "boundary_add_circle L h center radius doc =
     lib_call L (Boundary_add_circle center radius) doc
       (at_hatch h (\<lambda>x. x\<lparr>paths := paths x @ [CirclePath center radius]\<rparr>) doc)"

definition set_pattern_fill ::
    "env \<Rightarrow> nat \<Rightarrow> string \<Rightarrow> pyfloat \<Rightarrow> pyfloat \<Rightarrow> document \<Rightarrow> document act" where
  "set_pattern_fill L h name angle scale doc =
     lib_call L (Set_pattern_fill name angle scale) doc
       (at_hatch h
          (\<lambda>x. x\<lparr>pattern_fill :=
                    Some \<lparr>pat_name = name, pat_angle = angle, pat_scale = scale\<rparr>\<rparr>) doc)"

section \<open>The handlers\<close>

subsection \<open>Request and response\<close>

record GenerateParams =
  center_x :: pyfloat
  center_y :: pyfloat
  radius :: pyfloat
  spacing :: pyfloat
  angle_deg :: pyfloat
  layer_circle :: string
  layer_hatch :: string
  version :: string

text \<open>The schema's constraints: \<open>radius\<close> and \<open>spacing\<close> are declared with \<open>gt=0\<close>.\<close>

definition valid_params :: "GenerateParams \<Rightarrow> bool" where
  "valid_params p = (float_gt0 (radius p) \<and> float_gt0 (spacing p))"

record UploadFile =
  filename :: string
  file_content :: "byte list"

record StreamingResponse =
  content :: bytesio
  media_type :: string
  headers :: "(string \<times> string) list"

text \<open>The bytes the response streams: the buffer is read from its current position.\<close>

definition body :: "StreamingResponse \<Rightarrow> byte list" where
  "body resp = bytesio_read (content resp)"

definition content_disposition :: "string \<Rightarrow> string" where
  \<open>content_disposition name = ''attachment; filename="'' @ name @ ''"''\<close>

text \<open>
  \<open>s.encode("latin-1")\<close> succeeds when every character of \<open>s\<close> has a code point below
  256. In UTF-8 these are the characters whose bytes are all below \<open>0xC4\<close>.
\<close>

definition latin1 :: "string \<Rightarrow> bool" where
  "latin1 s = list_all (\<lambda>c. (of_char c :: nat) < 196) s"

text \<open>
  The constructor \<open>StreamingResponse(content, media_type=..., headers=...)\<close>: the
  framework encodes the name and the value of every header as Latin-1, and the
  \<open>UnicodeEncodeError\<close> of a text that cannot be encoded leaves the constructor.
\<close>

definition streaming_response ::
    "bytesio \<Rightarrow> string \<Rightarrow> (string \<times> string) list \<Rightarrow> StreamingResponse act" where
  "streaming_response buf mt hs =
     (if list_all (\<lambda>(k, v). latin1 k \<and> latin1 v) hs
      then ret \<lparr>content = buf, media_type = mt, headers = hs\<rparr>
      else raise_err (Unhandled (Exn ''UnicodeEncodeError'' ''latin-1'')))"

text \<open>
  The status the framework answers with: the code of an \<open>HTTPException\<close>, and 500 for
  an exception the handler let through.
\<close>

fun http_status :: "herror \<Rightarrow> nat" where
  "http_status (HTTPException code msg) = code"
| "http_status (Unhandled x) = 500"

subsection \<open>Helpers of the source\<close>

definition doc_with_units :: "env \<Rightarrow> string \<Rightarrow> document act" where
  "doc_with_units L version' =
     then_do (ezdxf_new L version') (\<lambda>doc.
       lib_call L (Header_set ''$INSUNITS'' (HInt 4)) doc
         (doc\<lparr>header := (header doc)(''$INSUNITS'' \<mapsto> HInt 4)\<rparr>))"

fun make_layers :: "env \<Rightarrow> document \<Rightarrow> string list \<Rightarrow> document act" where
  "make_layers L doc [] = ret doc"
| "make_layers L doc (name # layer_names) =
     (if \<not> has_layer L name doc
      then then_do (layers_new L name doc) (\<lambda>doc'. make_layers L doc' layer_names)
      else make_layers L doc layer_names)"

definition add_circle_with_hatch ::
    "env \<Rightarrow> document \<Rightarrow> pyfloat \<Rightarrow> pyfloat \<Rightarrow> pyfloat \<Rightarrow> pyfloat \<Rightarrow> pyfloat \<Rightarrow>
     string \<Rightarrow> string \<Rightarrow> document act" where
  "add_circle_with_hatch L doc cx cy r spacing' angle_deg' layer_circle' layer_hatch' =
     then_do (msp_add_circle L [cx, cy] r layer_circle' doc) (\<lambda>doc.
     then_do (msp_add_hatch L layer_hatch' doc) (\<lambda>(doc, hatch).
     then_do (set_associative L hatch True doc) (\<lambda>doc.
     then_do (boundary_add_circle L hatch [cx, cy] r doc) (\<lambda>doc.
     set_pattern_fill L hatch ''ANSI31'' angle_deg' spacing' doc))))"

subsection \<open>\<open>POST /generate\<close>\<close>

definition generate :: "env \<Rightarrow> GenerateParams \<Rightarrow> StreamingResponse act" where
  "generate L params =
     then_do (doc_with_units L (version params)) (\<lambda>doc.
     then_do (make_layers L doc [layer_circle params, layer_hatch params]) (\<lambda>doc.
     then_do (add_circle_with_hatch L doc (center_x params) (center_y params)
                (radius params) (spacing params) (angle_deg params)
                (layer_circle params) (layer_hatch params)) (\<lambda>doc.
     then_do (saveas L doc BytesIO) (\<lambda>buf.
     then_do (py (float_int (angle_deg params))) (\<lambda>angle.
       streaming_response (seek buf 0) ''application/dxf''
         [(''Content-Disposition'',
           content_disposition
             (''circle_hatch_'' @ float_str L (spacing params) @ ''mm_'' @
              str_int angle @ ''deg.dxf''))])))))"

subsection \<open>\<open>POST /hatch-on-upload\<close>\<close>

text \<open>\<open>file.file.read()\<close>.\<close>

definition file_read :: "UploadFile \<Rightarrow> byte list act" where
  "file_read f = (Inr (file_content f), [File_read])"

text \<open>The element \<open>[0]\<close> of a list; \<open>IndexError\<close> on the empty list.\<close>

definition index0 :: "'a list \<Rightarrow> exn + 'a" where
  "index0 xs =
     (case xs of [] \<Rightarrow> Inl (Exn ''IndexError'' ''list index out of range'') | x # _ \<Rightarrow> Inr x)"

definition hatch_on_upload ::
    "env \<Rightarrow> UploadFile \<Rightarrow> pyfloat \<Rightarrow> pyfloat \<Rightarrow> string \<Rightarrow> StreamingResponse act" where
  "hatch_on_upload L f spacing' angle_deg' layer_hatch' =
     (if \<not> endswith (lower (filename f)) ''.dxf''
      then raise_err (HTTPException 400 ''Carica un file .dxf'')
      else
        then_do (file_read f) (\<lambda>content'.
        then_do (ezdxf_read L content') (\<lambda>parsed.
          case parsed of
            Inl e \<Rightarrow> raise_err (HTTPException 400 (''DXF non valido: '' @ exn_msg e))
          | Inr doc \<Rightarrow>
              then_do (make_layers L doc [layer_hatch']) (\<lambda>doc.
                case find (\<lambda>e. dxftype e = ''CIRCLE'') (msp doc) of
                  None \<Rightarrow>
                    raise_err (HTTPException 400 ''Nessun CIRCLE trovato nel DXF caricato.'')
                | Some first_circle \<Rightarrow>
                    then_do (msp_add_hatch L layer_hatch' doc) (\<lambda>(doc, hatch).
                    then_do (set_associative L hatch True doc) (\<lambda>doc.
                    then_do (py (dxf_center first_circle)) (\<lambda>center.
                    then_do (py (dxf_radius first_circle)) (\<lambda>radius'.
                    then_do (boundary_add_circle L hatch center radius' doc) (\<lambda>doc.
                    then_do (set_pattern_fill L hatch ''ANSI31'' angle_deg' spacing' doc) (\<lambda>doc.
                    then_do (saveas L doc BytesIO) (\<lambda>buf.
                    then_do (py (index0 (rsplit1 ''.dxf'' (filename f)))) (\<lambda>stem.
                      streaming_response (seek buf 0) ''application/dxf''
                        [(''Content-Disposition'',
                          content_disposition (stem @ ''_HATCHED.dxf''))]
                    ))))))))))))"

section \<open>A reference instance of the library\<close>

text \<open>
  A small library on which the handlers can be run: every version but \<open>R9999\<close> gives
  a fresh document with the layer \<open>0\<close>; the empty byte string does not parse, a byte
  string starting with 0 parses to a document without circles, any other to a document
  with a line and two circles; layer names are looked up without regard to case;
  no other call raises.
\<close>

definition sample_doc :: "entity list \<Rightarrow> document" where
  "sample_doc es = \<lparr>header = Map.empty, layers = [''0''], msp = es\<rparr>"

definition sample_env :: env where
  "sample_env =
     \<lparr>ez_new = (\<lambda>v. if v = ''R9999'' then Inl (Exn ''DXFVersionError'' ''R9999'')
                     else Inr (sample_doc [])),
      ez_read = (\<lambda>bs. case bs of
                   [] \<Rightarrow> Inl (Exn ''DXFStructureError'' ''empty file'')
                 | b # _ \<Rightarrow>
                     Inr (sample_doc
                       (if b = 0 then [Other ''LINE'']
                        else [Other ''LINE'',
                              Circle [Finite 1, Finite 2, Finite 0] (Finite 3) ''0'',
                              Circle [Finite 5, Finite 5, Finite 0] (Finite 7) ''0'']))),
      ez_saveas = (\<lambda>doc. Inr [of_nat (length (layers doc)), of_nat (length (msp doc))]),
      ez_key = lower,
      ez_fault = (\<lambda>c doc. None),
      float_str = (\<lambda>x. if x = Finite (1 / 5) then ''0.2'' else ''1.0'')\<rparr>"

text \<open>The same library, except that the named call raises.\<close>

definition faulty_env :: "libcall \<Rightarrow> exn \<Rightarrow> env" where
  "faulty_env c x = sample_env\<lparr>ez_fault := (\<lambda>c' doc. if c' = c then Some x else None)\<rparr>"

definition sample_params :: GenerateParams where
  "sample_params =
     \<lparr>center_x = Finite 0, center_y = Finite 0, radius = Finite 10,
      spacing = Finite (1 / 5), angle_deg = Finite 45, layer_circle = ''CIRCLE'',
      layer_hatch = ''HATCH'', version = ''R2018''\<rparr>"

section \<open>Exceptions that leave a computation\<close>

text \<open>
  A computation catches nothing when its trace and its outcome agree: a computation
  that returned has no raising call in its trace, and one that failed ends with an
  exception it did not raise itself as an \<open>HTTPException\<close>, which is the exception of the
  only raising call of its trace, if there is one.
\<close>

definition uncaught :: "'a act \<Rightarrow> bool" where
  "uncaught m =
     (case fst m of
        Inr v \<Rightarrow> (\<forall>c x. Raised c x \<notin> set (snd m))
      | Inl e \<Rightarrow> (\<exists>x. e = Unhandled x \<and> (\<forall>c y. Raised c y \<in> set (snd m) \<longrightarrow> y = x)))"

section \<open>Basic facts about computations\<close>

lemma then_do_Inl [simp]: "then_do (Inl e, t) f = (Inl e, t)"
  by (simp add: then_do_def)

lemma then_do_Inr [simp]: "then_do (Inr x, t) f = (fst (f x), t @ snd (f x))"
  by (simp add: then_do_def split: prod.splits)

lemma lib_call_ok [simp]: "ez_fault L c doc = None \<Longrightarrow> lib_call L c doc r = (Inr r, [Lib c])"
  by (simp add: lib_call_def)

lemma lib_call_raise [simp]:
  "ez_fault L c doc = Some x \<Longrightarrow> lib_call L c doc r = (Inl (Unhandled x), [Raised c x])"
  by (simp add: lib_call_def)

lemma ret_simp [simp]: "ret x = (Inr x, [])"
  by (simp add: ret_def)

lemma raise_err_simp [simp]: "raise_err e = (Inl e, [])"
  by (simp add: raise_err_def)

lemma py_simps [simp]:
  "py (Inr v) = (Inr v, [])"
  "py (Inl x) = (Inl (Unhandled x), [])"
  by (simp_all add: py_def)

lemmas call_defs = layers_new_def msp_add_circle_def msp_add_hatch_def
  set_associative_def boundary_add_circle_def set_pattern_fill_def

lemma sample_fields [simp]:
  "ez_new sample_env v =
     (if v = ''R9999'' then Inl (Exn ''DXFVersionError'' ''R9999'') else Inr (sample_doc []))"
  "ez_saveas sample_env doc = Inr [of_nat (length (layers doc)), of_nat (length (msp doc))]"
  "ez_key sample_env = lower"
  "ez_fault sample_env c doc = None"
  "float_str sample_env x = (if x = Finite (1 / 5) then ''0.2'' else ''1.0'')"
  "ez_read sample_env [] = Inl (Exn ''DXFStructureError'' ''empty file'')"
  "ez_read sample_env (b # bs) =
     Inr (sample_doc
       (if b = 0 then [Other ''LINE'']
        else [Other ''LINE'',
              Circle [Finite 1, Finite 2, Finite 0] (Finite 3) ''0'',
              Circle [Finite 5, Finite 5, Finite 0] (Finite 7) ''0'']))"
  by (simp_all add: sample_env_def)

lemma calls_simps [simp]:
  "calls [] = []"
  "calls (File_read # t) = calls t"
  "calls (Lib c # t) = c # calls t"
  "calls (Raised c x # t) = c # calls t"
  "calls (t @ t') = calls t @ calls t'"
  by (simp_all add: calls_def List.map_filter_def)

lemma faulty_fields [simp]:
  "ez_fault (faulty_env c x) c' doc = (if c' = c then Some x else None)"
  "ez_new (faulty_env c x) = ez_new sample_env"
  "ez_read (faulty_env c x) = ez_read sample_env"
  "ez_saveas (faulty_env c x) = ez_saveas sample_env"
  "ez_key (faulty_env c x) = lower"
  "float_str (faulty_env c x) = float_str sample_env"
  by (simp_all add: faulty_env_def)

lemma at_hatch_last [simp]:
  "at_hatch (length es) g (doc\<lparr>msp := es @ [Hatch h]\<rparr>) = doc\<lparr>msp := es @ [Hatch (g h)]\<rparr>"
  by (simp add: at_hatch_def)

lemma make_layers_one:
  "make_layers L doc [name] =
     (if has_layer L name doc then (Inr doc, [])
      else lib_call L (Layers_new name) doc (doc\<lparr>layers := layers doc @ [name]\<rparr>))"
  by (cases "ez_fault L (Layers_new name) doc") (simp_all add: layers_new_def)

lemma find_first:
  "\<forall>e\<in>set pre. \<not> P e \<Longrightarrow> P x \<Longrightarrow> find P (pre @ x # post) = Some x"
  by (induction pre) simp_all

subsection \<open>String facts\<close>

lemma index0_rsplit1:
  "index0 (rsplit1 sep s) = Inr (case rfind sep s of None \<Rightarrow> s | Some i \<Rightarrow> take i s)"
  by (simp add: index0_def rsplit1_def split: option.splits)

lemma rfind_from_hit: "take (length sep) (drop k s) = sep \<Longrightarrow> rfind_from sep s k = Some k"
  by (cases k) simp_all

text \<open>A name that ends with the separator is cut in front of that last occurrence.\<close>

lemma rfind_suffix: "rfind sep (stem @ sep) = Some (length stem)"
  by (simp add: rfind_def rfind_from_hit)

lemma rfind_upper_case: "rfind ''.dxf'' ''A.DXF'' = None"
  by (simp add: rfind_def numeral_eq_Suc)

lemma latin1_simps [simp]:
  "latin1 [] = True"
  "latin1 (c # s) = (of_char c < (196 :: nat) \<and> latin1 s)"
  "latin1 (s @ t) = (latin1 s \<and> latin1 t)"
  by (simp_all add: latin1_def)

lemma latin1_take: "latin1 s \<Longrightarrow> latin1 (take i s)"
  unfolding latin1_def list_all_iff using set_take_subset [of i s] by blast

lemma latin1_content_disposition: "latin1 (content_disposition name) = latin1 name"
  by (simp add: content_disposition_def)

lemma latin1_str_nat: "latin1 (str_nat n)"
proof (induction n rule: str_nat.induct)
  case (1 n)
  have digit: "latin1 [digit_char d]" if "d < 10" for d
  proof -
    from that have "digit_char d \<in> set ''0123456789''"
      unfolding digit_char_def by (intro nth_mem) simp
    then show ?thesis by auto
  qed
  show ?case
  proof (cases "n < 10")
    case True
    with digit [of n] show ?thesis by (subst str_nat.simps) simp
  next
    case False
    with 1 digit [of "n mod 10"] show ?thesis by (subst str_nat.simps) simp
  qed
qed

lemma latin1_str_int [simp]: "latin1 (str_int i)"
  by (simp add: str_int_def latin1_str_nat)

subsection \<open>The response constructor\<close>

lemma streaming_response_one:
  "streaming_response buf mt [(''Content-Disposition'', v)] =
     (if latin1 v then (Inr \<lparr>content = buf, media_type = mt,
                                headers = [(''Content-Disposition'', v)]\<rparr>, [])
      else (Inl (Unhandled (Exn ''UnicodeEncodeError'' ''latin-1'')), []))"
  by (simp add: streaming_response_def)

lemma snd_streaming_response [simp]: "snd (streaming_response buf mt hs) = []"
  by (simp add: streaming_response_def)

subsection \<open>Nothing is caught but the parser's exception\<close>

lemma uncaught_then_do:
  assumes "uncaught m" and "\<And>v. uncaught (f v)"
  shows "uncaught (then_do m f)"
proof (cases m)
  case (Pair r t)
  show ?thesis
  proof (cases r)
    case (Inl e)
    with Pair assms(1) show ?thesis by (simp add: uncaught_def)
  next
    case (Inr v)
    with Pair assms(1) assms(2) [of v] show ?thesis
      by (auto simp add: uncaught_def split: sum.splits)
  qed
qed

lemma uncaught_lib_call [simp]: "uncaught (lib_call L c doc r)"
  by (cases "ez_fault L c doc") (simp_all add: uncaught_def)

lemma uncaught_ezdxf_new [simp]: "uncaught (ezdxf_new L v)"
  by (simp add: ezdxf_new_def uncaught_def split: sum.splits)

lemma uncaught_saveas [simp]: "uncaught (saveas L doc buf)"
  by (simp add: saveas_def uncaught_def split: sum.splits)

lemma uncaught_py [simp]: "uncaught (py r)"
  by (cases r) (simp_all add: uncaught_def)

lemma uncaught_pure [simp]: "uncaught (Inr v, [])"
  by (simp add: uncaught_def)

lemma uncaught_streaming_response [simp]: "uncaught (streaming_response buf mt hs)"
  by (simp add: streaming_response_def uncaught_def)

lemma uncaught_make_layers [simp]: "uncaught (make_layers L doc names)"
proof (induction names arbitrary: doc)
  case Nil
  show ?case by simp
next
  case (Cons name names)
  show ?case
    using Cons.IH by (simp add: layers_new_def uncaught_then_do)
qed

lemma uncaught_hatch_steps:
  "uncaught (then_do (msp_add_hatch L layer doc) (\<lambda>(doc, hatch). g doc hatch))"
  if "\<And>d h. uncaught (g d h)"
  by (rule uncaught_then_do) (simp_all add: msp_add_hatch_def that split: prod.splits)

lemma uncaught_add_circle_with_hatch [simp]:
  "uncaught (add_circle_with_hatch L doc cx cy r s a lc lh)"
  unfolding add_circle_with_hatch_def
  by (intro uncaught_then_do uncaught_hatch_steps) (simp_all add: call_defs)

lemma uncaught_doc_with_units [simp]: "uncaught (doc_with_units L v)"
  unfolding doc_with_units_def by (intro uncaught_then_do) simp_all

lemma uncaught_generate: "uncaught (generate L p)"
  unfolding generate_def by (intro uncaught_then_do) (simp_all del: make_layers.simps)

lemma uncaught_upload_tail:
  "uncaught
     (then_do (msp_add_hatch L layer_hatch' doc) (\<lambda>(doc, hatch).
      then_do (set_associative L hatch True doc) (\<lambda>doc.
      then_do (py (dxf_center first_circle)) (\<lambda>center.
      then_do (py (dxf_radius first_circle)) (\<lambda>radius'.
      then_do (boundary_add_circle L hatch center radius' doc) (\<lambda>doc.
      then_do (set_pattern_fill L hatch ''ANSI31'' angle_deg' spacing' doc) (\<lambda>doc.
      then_do (saveas L doc BytesIO) (\<lambda>buf.
      then_do (py (index0 (rsplit1 ''.dxf'' name))) (\<lambda>stem.
        streaming_response (seek buf 0) ''application/dxf''
          [(''Content-Disposition'',
            content_disposition (stem @ ''_HATCHED.dxf''))])))))))))"
  by (intro uncaught_then_do uncaught_hatch_steps) (simp_all add: call_defs)

lemma uncaught_not_http: "uncaught m \<Longrightarrow> fst m \<noteq> Inl (HTTPException code msg)"
  by (auto simp add: uncaught_def split: sum.splits)

lemma uncaught_raised:
  "uncaught m \<Longrightarrow> Raised c x \<in> set (snd m) \<Longrightarrow> fst m = Inl (Unhandled x)"
  by (cases "fst m") (auto simp add: uncaught_def)

lemma uncaught_error:
  "uncaught m \<Longrightarrow> fst m = Inl e \<Longrightarrow> (\<exists>x. e = Unhandled x) \<and> http_status e = 500"
  by (auto simp add: uncaught_def)

section \<open>The upload handler\<close>

subsection \<open>The three rejections\<close>

lemma upload_bad_extension:
  "\<not> endswith (lower (filename f)) ''.dxf'' \<Longrightarrow>
   hatch_on_upload L f spacing' angle_deg' layer_hatch' =
     (Inl (HTTPException 400 ''Carica un file .dxf''), [])"
  by (simp add: hatch_on_upload_def)

lemma upload_parse_failure:
  "endswith (lower (filename f)) ''.dxf'' \<Longrightarrow> ez_read L (file_content f) = Inl e \<Longrightarrow>
   hatch_on_upload L f spacing' angle_deg' layer_hatch' =
     (Inl (HTTPException 400 (''DXF non valido: '' @ exn_msg e)),
      [File_read, Raised (Ezdxf_read (file_content f)) e])"
  by (simp add: hatch_on_upload_def file_read_def ezdxf_read_def)

lemma upload_no_circle:
  assumes ext: "endswith (lower (filename f)) ''.dxf''"
    and parsed: "ez_read L (file_content f) = Inr doc"
    and layer: "has_layer L layer_hatch' doc \<or> ez_fault L (Layers_new layer_hatch') doc = None"
    and none: "find (\<lambda>e. dxftype e = ''CIRCLE'') (msp doc) = None"
  shows "hatch_on_upload L f spacing' angle_deg' layer_hatch' =
     (Inl (HTTPException 400 ''Nessun CIRCLE trovato nel DXF caricato.''),
      [File_read, Lib (Ezdxf_read (file_content f))] @
      (if has_layer L layer_hatch' doc then [] else [Lib (Layers_new layer_hatch')]))"
  using assms
  by (auto simp add: hatch_on_upload_def file_read_def ezdxf_read_def layers_new_def)

text \<open>When creating the layer raises, that exception ends the handler before the scan.\<close>

lemma upload_layer_raises:
  assumes ext: "endswith (lower (filename f)) ''.dxf''"
    and parsed: "ez_read L (file_content f) = Inr doc"
    and absent: "\<not> has_layer L layer_hatch' doc"
    and raises: "ez_fault L (Layers_new layer_hatch') doc = Some x"
  shows "hatch_on_upload L f spacing' angle_deg' layer_hatch' =
     (Inl (Unhandled x),
      [File_read, Lib (Ezdxf_read (file_content f)), Raised (Layers_new layer_hatch') x])"
  using assms
  by (simp add: hatch_on_upload_def file_read_def ezdxf_read_def make_layers_one
      del: make_layers.simps)

text \<open>
  C5. When the lower-cased filename does not end with \<open>.dxf\<close>, the upload handler raises
  HTTP 400 and its trace is empty: the file is not read, the parser is not called and no
  document exists. The outcome is the same for every library and every content.
\<close>

theorem upload_rejects_extension_before_parsing:
  "\<not> endswith (lower (filename f)) ''.dxf'' \<Longrightarrow>
   hatch_on_upload L f spacing' angle_deg' layer_hatch' =
     (Inl (HTTPException 400 ''Carica un file .dxf''), [])"
  by (rule upload_bad_extension)

theorem upload_rejects_extension_before_parsing_witness:
  "\<not> endswith (lower ''plan.pdf'') ''.dxf'' \<and>
   hatch_on_upload sample_env \<lparr>filename = ''plan.pdf'', file_content = [1, 2]\<rparr>
       (Finite (1 / 5)) (Finite 45) ''HATCH'' =
     (Inl (HTTPException 400 ''Carica un file .dxf''), [])"
proof -
  have ext: "\<not> endswith (lower (filename \<lparr>filename = ''plan.pdf'',
      file_content = [1, 2 :: byte]\<rparr>)) ''.dxf''"
    by (simp add: endswith_def lower_def lower_char_def)
  from upload_rejects_extension_before_parsing [OF ext] ext show ?thesis
    by simp
qed

text \<open>
  C6. When the filename passes the extension check and the parser raises \<open>e\<close>, the upload
  handler raises HTTP 400 whose detail is \<open>DXF non valido: \<close> followed by \<open>str(e)\<close>; the
  trace holds the read of the file and the parser call that raised.
\<close>

theorem upload_parse_failure_message:
  "endswith (lower (filename f)) ''.dxf'' \<Longrightarrow> ez_read L (file_content f) = Inl e \<Longrightarrow>
   hatch_on_upload L f spacing' angle_deg' layer_hatch' =
     (Inl (HTTPException 400 (''DXF non valido: '' @ exn_msg e)),
      [File_read, Raised (Ezdxf_read (file_content f)) e])"
  by (rule upload_parse_failure)

theorem upload_parse_failure_message_witness:
  "hatch_on_upload sample_env \<lparr>filename = ''Plan.DXF'', file_content = []\<rparr>
       (Finite (1 / 5)) (Finite 45) ''HATCH'' =
     (Inl (HTTPException 400 ''DXF non valido: empty file''),
      [File_read, Raised (Ezdxf_read []) (Exn ''DXFStructureError'' ''empty file'')])"
proof -
  have ext: "endswith (lower (filename \<lparr>filename = ''Plan.DXF'',
      file_content = [] :: byte list\<rparr>)) ''.dxf''"
    by (simp add: endswith_def lower_def lower_char_def)
  have rd: "ez_read sample_env (file_content \<lparr>filename = ''Plan.DXF'', file_content = []\<rparr>) =
      Inl (Exn ''DXFStructureError'' ''empty file'')"
    by simp
  from upload_parse_failure_message [OF ext rd] show ?thesis
    by simp
qed

text \<open>
  C7, as the claim is worded: a document that parses and has no circle is not always
  answered with HTTP 400. The layer step runs before the scan, and with a library that
  refuses the layer name \<open>a*b\<close> the upload of a document without circles ends with the
  library's exception, which the handler does not catch.
\<close>

theorem upload_no_circle_layer_refused:
  "ez_read (faulty_env (Layers_new ''a*b'') (Exn ''DXFValueError'' ''a*b''))
       (file_content \<lparr>filename = ''empty.dxf'', file_content = [0]\<rparr>) =
     Inr (sample_doc [Other ''LINE'']) \<and>
   hatch_on_upload (faulty_env (Layers_new ''a*b'') (Exn ''DXFValueError'' ''a*b''))
       \<lparr>filename = ''empty.dxf'', file_content = [0]\<rparr> (Finite (1 / 5)) (Finite 45) ''a*b'' =
     (Inl (Unhandled (Exn ''DXFValueError'' ''a*b'')),
      [File_read, Lib (Ezdxf_read [0]),
       Raised (Layers_new ''a*b'') (Exn ''DXFValueError'' ''a*b'')])"
proof -
  let ?L = "faulty_env (Layers_new ''a*b'') (Exn ''DXFValueError'' ''a*b'')"
  let ?f = "\<lparr>filename = ''empty.dxf'', file_content = [0 :: byte]\<rparr>"
  have ext: "endswith (lower (filename ?f)) ''.dxf''"
    by (simp add: endswith_def lower_def lower_char_def)
  have rd: "ez_read ?L (file_content ?f) = Inr (sample_doc [Other ''LINE''])"
    by simp
  have absent: "\<not> has_layer ?L ''a*b'' (sample_doc [Other ''LINE''])"
    by (simp add: has_layer_def sample_doc_def lower_def lower_char_def)
  have raises: "ez_fault ?L (Layers_new ''a*b'') (sample_doc [Other ''LINE'']) =
      Some (Exn ''DXFValueError'' ''a*b'')"
    by simp
  from upload_layer_raises [OF ext rd absent raises] rd show ?thesis
    by simp
qed

text \<open>
  C7, amended. When the filename passes the extension check, the content parses to
  \<open>doc\<close>, the layer step does not raise (the layer is present, or creating it succeeds)
  and the model space of \<open>doc\<close> has no entity of type \<open>CIRCLE\<close>, the upload handler
  raises HTTP 400 with the message that no circle was found. The trace ends with the
  layer step: the document is never serialised and no response is built.
\<close>

theorem upload_no_circle_rejected:
  assumes ext: "endswith (lower (filename f)) ''.dxf''"
    and parsed: "ez_read L (file_content f) = Inr doc"
    and layer: "has_layer L layer_hatch' doc \<or> ez_fault L (Layers_new layer_hatch') doc = None"
    and none: "find (\<lambda>e. dxftype e = ''CIRCLE'') (msp doc) = None"
  shows "hatch_on_upload L f spacing' angle_deg' layer_hatch' =
     (Inl (HTTPException 400 ''Nessun CIRCLE trovato nel DXF caricato.''),
      [File_read, Lib (Ezdxf_read (file_content f))] @
      (if has_layer L layer_hatch' doc then [] else [Lib (Layers_new layer_hatch')]))"
  using assms by (rule upload_no_circle)

theorem upload_no_circle_rejected_witness:
  "hatch_on_upload sample_env \<lparr>filename = ''empty.dxf'', file_content = [0]\<rparr>
       (Finite (1 / 5)) (Finite 45) ''HATCH'' =
     (Inl (HTTPException 400 ''Nessun CIRCLE trovato nel DXF caricato.''),
      [File_read, Lib (Ezdxf_read [0]), Lib (Layers_new ''HATCH'')])"
proof -
  let ?f = "\<lparr>filename = ''empty.dxf'', file_content = [0 :: byte]\<rparr>"
  have ext: "endswith (lower (filename ?f)) ''.dxf''"
    by (simp add: endswith_def lower_def lower_char_def)
  have rd: "ez_read sample_env (file_content ?f) = Inr (sample_doc [Other ''LINE''])"
    by simp
  have lay: "has_layer sample_env ''HATCH'' (sample_doc [Other ''LINE'']) \<or>
      ez_fault sample_env (Layers_new ''HATCH'') (sample_doc [Other ''LINE'']) = None"
    by simp
  have nohl: "\<not> has_layer sample_env ''HATCH'' (sample_doc [Other ''LINE''])"
    by (simp add: has_layer_def sample_doc_def lower_def lower_char_def)
  have none: "find (\<lambda>e. dxftype e = ''CIRCLE'') (msp (sample_doc [Other ''LINE''])) = None"
    by (simp add: sample_doc_def)
  from upload_no_circle_rejected [OF ext rd lay none] nohl show ?thesis
    by simp
qed

subsection \<open>The run on a document with a circle\<close>

text \<open>
  The hypothesis \<open>quiet\<close> speaks of the calls of this run only: none of them raised,
  serialisation apart.
\<close>

lemma upload_run:
  assumes ext: "endswith (lower (filename f)) ''.dxf''"
    and parsed: "ez_read L (file_content f) = Inr doc"
    and first: "find (\<lambda>e. dxftype e = ''CIRCLE'') (msp doc) = Some (Circle c r l)"
    and quiet: "\<forall>c' x. Raised c' x \<in> set (snd (hatch_on_upload L f s a lh)) \<longrightarrow>
                 (\<exists>d. c' = Saveas d)"
    and out: "out = doc\<lparr>layers := (if has_layer L lh doc then layers doc else layers doc @ [lh]),
                msp := msp doc @
                  [Hatch \<lparr>hatch_layer = lh, associative = True, paths = [CirclePath c r],
                     pattern_fill = Some \<lparr>pat_name = ''ANSI31'', pat_angle = a,
                       pat_scale = s\<rparr>\<rparr>]\<rparr>"
    and tr: "tr = [File_read, Lib (Ezdxf_read (file_content f))] @
                (if has_layer L lh doc then [] else [Lib (Layers_new lh)]) @
                [Lib (Msp_add_hatch lh), Lib (Set_associative True),
                 Lib (Boundary_add_circle c r), Lib (Set_pattern_fill ''ANSI31'' a s)]"
  shows "hatch_on_upload L f s a lh =
     (case ez_saveas L out of
        Inl x \<Rightarrow> (Inl (Unhandled x), tr @ [Raised (Saveas out) x])
      | Inr bs \<Rightarrow>
          (fst (streaming_response \<lparr>data = bs, pos = 0\<rparr> ''application/dxf''
              [(''Content-Disposition'',
                  content_disposition
                    ((case rfind ''.dxf'' (filename f) of None \<Rightarrow> filename f
                      | Some i \<Rightarrow> take i (filename f)) @ ''_HATCHED.dxf''))]),
           tr @ [Lib (Saveas out)]))"
proof -
  let ?run = "hatch_on_upload L f s a lh"
  let ?h0 = "\<lparr>hatch_layer = lh, associative = False, paths = [], pattern_fill = None\<rparr>"
  define d1 where "d1 = (if has_layer L lh doc then doc else doc\<lparr>layers := layers doc @ [lh]\<rparr>)"
  define t1 where "t1 = (if has_layer L lh doc then [] else [Lib (Layers_new lh)])"
  note start = hatch_on_upload_def file_read_def ezdxf_read_def
  have h1: "has_layer L lh doc \<or> ez_fault L (Layers_new lh) doc = None"
  proof (rule ccontr)
    assume "\<not> (has_layer L lh doc \<or> ez_fault L (Layers_new lh) doc = None)"
    then obtain x where "\<not> has_layer L lh doc" "ez_fault L (Layers_new lh) doc = Some x"
      by auto
    with ext parsed have "Raised (Layers_new lh) x \<in> set (snd ?run)"
      by (simp add: start make_layers_one del: make_layers.simps)
    with quiet show False by blast
  qed
  then have m1: "make_layers L doc [lh] = (Inr d1, t1)"
    by (auto simp add: make_layers_one d1_def t1_def simp del: make_layers.simps)
  have found: "find (\<lambda>e. dxftype e = ''CIRCLE'') (msp d1) = Some (Circle c r l)"
    using first by (simp add: d1_def)
  note start = start m1 found call_defs
  have h2: "ez_fault L (Msp_add_hatch lh) d1 = None"
  proof (cases "ez_fault L (Msp_add_hatch lh) d1")
    case (Some x)
    with ext parsed have "Raised (Msp_add_hatch lh) x \<in> set (snd ?run)"
      by (simp add: start del: make_layers.simps)
    with quiet show ?thesis by blast
  qed simp
  have h3: "ez_fault L (Set_associative True) (d1\<lparr>msp := msp d1 @ [Hatch ?h0]\<rparr>) = None"
  proof (cases "ez_fault L (Set_associative True) (d1\<lparr>msp := msp d1 @ [Hatch ?h0]\<rparr>)")
    case (Some x)
    with ext parsed h2 have "Raised (Set_associative True) x \<in> set (snd ?run)"
      by (simp add: start del: make_layers.simps)
    with quiet show ?thesis by blast
  qed simp
  have h4: "ez_fault L (Boundary_add_circle c r)
      (d1\<lparr>msp := msp d1 @ [Hatch (?h0\<lparr>associative := True\<rparr>)]\<rparr>) = None"
  proof (cases "ez_fault L (Boundary_add_circle c r)
      (d1\<lparr>msp := msp d1 @ [Hatch (?h0\<lparr>associative := True\<rparr>)]\<rparr>)")
    case (Some x)
    with ext parsed h2 h3 have "Raised (Boundary_add_circle c r) x \<in> set (snd ?run)"
      by (simp add: start del: make_layers.simps)
    with quiet show ?thesis by blast
  qed simp
  have h5: "ez_fault L (Set_pattern_fill ''ANSI31'' a s)
      (d1\<lparr>msp := msp d1 @
         [Hatch (?h0\<lparr>associative := True, paths := [CirclePath c r]\<rparr>)]\<rparr>) = None"
  proof (cases "ez_fault L (Set_pattern_fill ''ANSI31'' a s)
      (d1\<lparr>msp := msp d1 @
         [Hatch (?h0\<lparr>associative := True, paths := [CirclePath c r]\<rparr>)]\<rparr>)")
    case (Some x)
    with ext parsed h2 h3 h4 have "Raised (Set_pattern_fill ''ANSI31'' a s) x \<in> set (snd ?run)"
      by (simp add: start del: make_layers.simps)
    with quiet show ?thesis by blast
  qed simp
  have out1: "out = d1\<lparr>msp := msp d1 @
         [Hatch \<lparr>hatch_layer = lh, associative = True, paths = [CirclePath c r],
                     pattern_fill = Some \<lparr>pat_name = ''ANSI31'', pat_angle = a,
                       pat_scale = s\<rparr>\<rparr>]\<rparr>"
    by (simp add: out d1_def)
  have tr1: "tr = [File_read, Lib (Ezdxf_read (file_content f))] @ t1 @
                [Lib (Msp_add_hatch lh), Lib (Set_associative True),
                 Lib (Boundary_add_circle c r), Lib (Set_pattern_fill ''ANSI31'' a s)]"
    by (simp add: tr t1_def)
  from ext parsed h2 h3 h4 h5 show ?thesis
    unfolding out1 tr1
    by (simp add: start saveas_def index0_rsplit1 BytesIO_def bytesio_write_def seek_def
        del: make_layers.simps split: sum.splits)
qed

text \<open>The run on the reference library, for a file that parses to the two circles.\<close>

lemma upload_sample_run:
  assumes ext: "endswith (lower name) ''.dxf''"
  shows "hatch_on_upload sample_env \<lparr>filename = name, file_content = [1]\<rparr> s a ''HATCH'' =
     (fst (streaming_response \<lparr>data = [2, 4], pos = 0\<rparr> ''application/dxf''
        [(''Content-Disposition'',
          content_disposition
            ((case rfind ''.dxf'' name of None \<Rightarrow> name | Some i \<Rightarrow> take i name) @
             ''_HATCHED.dxf''))]),
      [File_read, Lib (Ezdxf_read [1]), Lib (Layers_new ''HATCH''),
       Lib (Msp_add_hatch ''HATCH''), Lib (Set_associative True),
       Lib (Boundary_add_circle [Finite 1, Finite 2, Finite 0] (Finite 3)),
       Lib (Set_pattern_fill ''ANSI31'' a s),
       Lib (Saveas
         \<lparr>header = Map.empty, layers = [''0'', ''HATCH''],
          msp = [Other ''LINE'',
            Circle [Finite 1, Finite 2, Finite 0] (Finite 3) ''0'',
            Circle [Finite 5, Finite 5, Finite 0] (Finite 7) ''0'',
            Hatch \<lparr>hatch_layer = ''HATCH'', associative = True,
              paths = [CirclePath [Finite 1, Finite 2, Finite 0] (Finite 3)],
              pattern_fill = Some \<lparr>pat_name = ''ANSI31'', pat_angle = a,
                pat_scale = s\<rparr>\<rparr>]\<rparr>)])"
  using ext
  by (simp add: hatch_on_upload_def file_read_def ezdxf_read_def make_layers_one call_defs
      saveas_def index0_rsplit1 BytesIO_def bytesio_write_def seek_def sample_doc_def
      has_layer_def at_hatch_def lower_def lower_char_def del: make_layers.simps)

text \<open>
  C2, as the claim is worded: a document that parses and holds circles does not always
  get a hatch. With a library that refuses the layer name \<open>a*b\<close>, the upload of a
  document with two circles ends with the library's exception at the layer step: no
  hatch is added and nothing is serialised.
\<close>

theorem upload_layer_refused_no_hatch:
  "ez_read (faulty_env (Layers_new ''a*b'') (Exn ''DXFValueError'' ''a*b''))
       (file_content \<lparr>filename = ''part.dxf'', file_content = [1]\<rparr>) =
     Inr (sample_doc [Other ''LINE'',
            Circle [Finite 1, Finite 2, Finite 0] (Finite 3) ''0'',
            Circle [Finite 5, Finite 5, Finite 0] (Finite 7) ''0'']) \<and>
   hatch_on_upload (faulty_env (Layers_new ''a*b'') (Exn ''DXFValueError'' ''a*b''))
       \<lparr>filename = ''part.dxf'', file_content = [1]\<rparr> (Finite (1 / 5)) (Finite 45) ''a*b'' =
     (Inl (Unhandled (Exn ''DXFValueError'' ''a*b'')),
      [File_read, Lib (Ezdxf_read [1]),
       Raised (Layers_new ''a*b'') (Exn ''DXFValueError'' ''a*b'')])"
proof -
  let ?L = "faulty_env (Layers_new ''a*b'') (Exn ''DXFValueError'' ''a*b'')"
  let ?f = "\<lparr>filename = ''part.dxf'', file_content = [1 :: byte]\<rparr>"
  let ?doc = "sample_doc [Other ''LINE'',
            Circle [Finite 1, Finite 2, Finite 0] (Finite 3) ''0'',
            Circle [Finite 5, Finite 5, Finite 0] (Finite 7) ''0'']"
  have ext: "endswith (lower (filename ?f)) ''.dxf''"
    by (simp add: endswith_def lower_def lower_char_def)
  have rd: "ez_read ?L (file_content ?f) = Inr ?doc"
    by simp
  have absent: "\<not> has_layer ?L ''a*b'' ?doc"
    by (simp add: has_layer_def sample_doc_def lower_def lower_char_def)
  have raises: "ez_fault ?L (Layers_new ''a*b'') ?doc = Some (Exn ''DXFValueError'' ''a*b'')"
    by simp
  from upload_layer_raises [OF ext rd absent raises] rd show ?thesis
    by simp
qed

text \<open>
  C2, amended. When the filename passes the extension check, the content parses to
  \<open>doc\<close>, the model space of \<open>doc\<close> is \<open>pre @ Circle c r l # post\<close> with no entity of type
  \<open>CIRCLE\<close> in \<open>pre\<close> (whatever \<open>post\<close> holds), and none of the library calls this run
  makes before it serialises raises, the document the handler serialises has the
  header of \<open>doc\<close> and the model space of \<open>doc\<close> followed by exactly one new entity: a
  hatch on the given layer, associative, with the single boundary path of centre \<open>c\<close>
  and radius \<open>r\<close>, filled with \<open>ANSI31\<close> at the given angle and with scale equal to the
  given spacing. Serialisation is the handler's last library call; when it succeeds and
  the filename can be encoded as Latin-1, the response streams exactly its bytes.
\<close>

theorem upload_adds_one_hatch_on_first_circle:
  assumes ext: "endswith (lower (filename f)) ''.dxf''"
    and parsed: "ez_read L (file_content f) = Inr doc"
    and split: "msp doc = pre @ Circle c r l # post"
    and first: "\<forall>e\<in>set pre. dxftype e \<noteq> ''CIRCLE''"
    and quiet: "\<forall>c' x. Raised c' x \<in> set (snd (hatch_on_upload L f s a lh)) \<longrightarrow>
                 (\<exists>d. c' = Saveas d)"
  shows "\<exists>before out.
      calls (snd (hatch_on_upload L f s a lh)) = before @ [Saveas out] \<and>
      (\<forall>d. Saveas d \<notin> set before) \<and>
      header out = header doc \<and>
      msp out = msp doc @
        [Hatch \<lparr>hatch_layer = lh, associative = True, paths = [CirclePath c r],
           pattern_fill = Some \<lparr>pat_name = ''ANSI31'', pat_angle = a, pat_scale = s\<rparr>\<rparr>] \<and>
      (\<forall>bs. ez_saveas L out = Inr bs \<and> latin1 (filename f) \<longrightarrow>
         (\<exists>resp. fst (hatch_on_upload L f s a lh) = Inr resp \<and> body resp = bs))"
proof -
  have found: "find (\<lambda>e. dxftype e = ''CIRCLE'') (msp doc) = Some (Circle c r l)"
    unfolding split using first by (intro find_first) simp_all
  define out where "out = doc\<lparr>layers := (if has_layer L lh doc then layers doc else layers doc @ [lh]),
                msp := msp doc @
                  [Hatch \<lparr>hatch_layer = lh, associative = True, paths = [CirclePath c r],
                     pattern_fill = Some \<lparr>pat_name = ''ANSI31'', pat_angle = a,
                       pat_scale = s\<rparr>\<rparr>]\<rparr>"
  define tr where "tr = [File_read, Lib (Ezdxf_read (file_content f))] @
                (if has_layer L lh doc then [] else [Lib (Layers_new lh)]) @
                [Lib (Msp_add_hatch lh), Lib (Set_associative True),
                 Lib (Boundary_add_circle c r), Lib (Set_pattern_fill ''ANSI31'' a s)]"
  note run = upload_run [OF ext parsed found quiet out_def tr_def]
  have c: "calls (snd (hatch_on_upload L f s a lh)) = calls tr @ [Saveas out]"
    unfolding run by (simp split: sum.splits)
  have nosave: "\<forall>d. Saveas d \<notin> set (calls tr)"
    by (simp add: tr_def)
  have stem: "latin1 (filename f) \<Longrightarrow>
      latin1 (case rfind ''.dxf'' (filename f) of None \<Rightarrow> filename f
              | Some i \<Rightarrow> take i (filename f))"
    by (simp add: latin1_take split: option.splits)
  have resp: "\<forall>bs. ez_saveas L out = Inr bs \<and> latin1 (filename f) \<longrightarrow>
         (\<exists>resp. fst (hatch_on_upload L f s a lh) = Inr resp \<and> body resp = bs)"
    unfolding run using stem
    by (simp add: streaming_response_one latin1_content_disposition body_def bytesio_read_def)
  have "header out = header doc" and "msp out = msp doc @
        [Hatch \<lparr>hatch_layer = lh, associative = True, paths = [CirclePath c r],
           pattern_fill = Some \<lparr>pat_name = ''ANSI31'', pat_angle = a, pat_scale = s\<rparr>\<rparr>]"
    by (simp_all add: out_def)
  with c nosave resp show ?thesis by blast
qed

theorem upload_adds_one_hatch_on_first_circle_witness:
  "\<exists>before out.
      calls (snd (hatch_on_upload sample_env \<lparr>filename = ''part.dxf'', file_content = [1]\<rparr>
        (Finite (1 / 5)) (Finite 45) ''HATCH'')) = before @ [Saveas out] \<and>
      msp out =
        [Other ''LINE'',
         Circle [Finite 1, Finite 2, Finite 0] (Finite 3) ''0'',
         Circle [Finite 5, Finite 5, Finite 0] (Finite 7) ''0'',
         Hatch \<lparr>hatch_layer = ''HATCH'', associative = True,
           paths = [CirclePath [Finite 1, Finite 2, Finite 0] (Finite 3)],
           pattern_fill = Some \<lparr>pat_name = ''ANSI31'', pat_angle = Finite 45,
             pat_scale = Finite (1 / 5)\<rparr>\<rparr>] \<and>
      (\<exists>resp. fst (hatch_on_upload sample_env \<lparr>filename = ''part.dxf'', file_content = [1]\<rparr>
        (Finite (1 / 5)) (Finite 45) ''HATCH'') = Inr resp \<and> body resp = [2, 4])"
proof -
  let ?f = "\<lparr>filename = ''part.dxf'', file_content = [1 :: byte]\<rparr>"
  let ?doc = "sample_doc [Other ''LINE'',
              Circle [Finite 1, Finite 2, Finite 0] (Finite 3) ''0'',
              Circle [Finite 5, Finite 5, Finite 0] (Finite 7) ''0'']"
  let ?run = "hatch_on_upload sample_env ?f (Finite (1 / 5)) (Finite 45) ''HATCH''"
  have ext: "endswith (lower (filename ?f)) ''.dxf''"
    by (simp add: endswith_def lower_def lower_char_def)
  have rd: "ez_read sample_env (file_content ?f) = Inr ?doc"
    by simp
  have split: "msp ?doc = [Other ''LINE''] @
      Circle [Finite 1, Finite 2, Finite 0] (Finite 3) ''0'' #
      [Circle [Finite 5, Finite 5, Finite 0] (Finite 7) ''0'']"
    by (simp add: sample_doc_def)
  have first: "\<forall>e\<in>set [Other ''LINE'']. dxftype e \<noteq> ''CIRCLE''"
    by simp
  have quiet: "\<forall>c' x. Raised c' x \<in> set (snd ?run) \<longrightarrow> (\<exists>d. c' = Saveas d)"
    using ext by (simp add: upload_sample_run)
  have enc: "latin1 (filename ?f)"
    by simp
  from upload_adds_one_hatch_on_first_circle [OF ext rd split first quiet]
  obtain before out where c: "calls (snd ?run) = before @ [Saveas out]"
    and m: "msp out = msp ?doc @
        [Hatch \<lparr>hatch_layer = ''HATCH'', associative = True,
           paths = [CirclePath [Finite 1, Finite 2, Finite 0] (Finite 3)],
           pattern_fill = Some \<lparr>pat_name = ''ANSI31'', pat_angle = Finite 45,
             pat_scale = Finite (1 / 5)\<rparr>\<rparr>]"
    and r: "\<forall>bs. ez_saveas sample_env out = Inr bs \<and> latin1 (filename ?f) \<longrightarrow>
         (\<exists>resp. fst ?run = Inr resp \<and> body resp = bs)"
    by blast
  from c have "layers out = [''0'', ''HATCH'']"
    using ext by (auto simp add: upload_sample_run)
  with m have "ez_saveas sample_env out = Inr [2, 4]"
    by (simp add: sample_doc_def)
  with r enc have "\<exists>resp. fst ?run = Inr resp \<and> body resp = [2, 4]"
    by blast
  with c m show ?thesis
    by (intro exI [of _ before] exI [of _ out]) (simp add: sample_doc_def)
qed

text \<open>
  C1. The filename \<open>A.DXF\<close> passes the extension check, and the response is named
  \<open>A.DXF_HATCHED.dxf\<close>: the upper-case extension is not stripped, because the name is
  split at the lower-case text \<open>.dxf\<close> only.
\<close>

theorem upload_upper_case_extension_kept:
  \<open>endswith (lower ''A.DXF'') ''.dxf'' \<and>
   map_sum id headers
     (fst (hatch_on_upload sample_env \<lparr>filename = ''A.DXF'', file_content = [1]\<rparr>
        (Finite (1 / 5)) (Finite 45) ''HATCH'')) =
   Inr [(''Content-Disposition'', ''attachment; filename="A.DXF_HATCHED.dxf"'')]\<close>
proof -
  have ext: "endswith (lower ''A.DXF'') ''.dxf''"
    by (simp add: endswith_def lower_def lower_char_def)
  from upload_sample_run [OF ext, of "Finite (1 / 5)" "Finite 45"] ext show ?thesis
    by (simp add: rfind_upper_case streaming_response_one content_disposition_def)
qed

subsection \<open>When the upload handler answers 400\<close>

lemma upload_after_parse:
  assumes ext: "endswith (lower (filename f)) ''.dxf''"
    and parsed: "ez_read L (file_content f) = Inr doc"
  shows "(\<exists>m. fst (hatch_on_upload L f s a lh) = Inl (HTTPException code m)) \<longleftrightarrow>
     code = 400 \<and> (has_layer L lh doc \<or> ez_fault L (Layers_new lh) doc = None) \<and>
     find (\<lambda>e. dxftype e = ''CIRCLE'') (msp doc) = None"
proof (cases "has_layer L lh doc \<or> ez_fault L (Layers_new lh) doc = None")
  case False
  then obtain x where "\<not> has_layer L lh doc" "ez_fault L (Layers_new lh) doc = Some x"
    by auto
  with ext parsed False show ?thesis
    by (simp add: hatch_on_upload_def file_read_def ezdxf_read_def make_layers_one
        del: make_layers.simps)
next
  case layer: True
  show ?thesis
  proof (cases "find (\<lambda>e. dxftype e = ''CIRCLE'') (msp doc)")
    case None
    from upload_no_circle [OF ext parsed layer None, of s a] layer None
    show ?thesis by auto
  next
    case (Some first_circle)
    define d where "d = (if has_layer L lh doc then doc else doc\<lparr>layers := layers doc @ [lh]\<rparr>)"
    have msp_d: "msp d = msp doc" by (simp add: d_def)
    have "fst (hatch_on_upload L f s a lh) =
      fst (then_do (msp_add_hatch L lh d) (\<lambda>(doc, hatch).
      then_do (set_associative L hatch True doc) (\<lambda>doc.
      then_do (py (dxf_center first_circle)) (\<lambda>center.
      then_do (py (dxf_radius first_circle)) (\<lambda>radius'.
      then_do (boundary_add_circle L hatch center radius' doc) (\<lambda>doc.
      then_do (set_pattern_fill L hatch ''ANSI31'' a s doc) (\<lambda>doc.
      then_do (saveas L doc BytesIO) (\<lambda>buf.
      then_do (py (index0 (rsplit1 ''.dxf'' (filename f)))) (\<lambda>stem.
        streaming_response (seek buf 0) ''application/dxf''
          [(''Content-Disposition'',
            content_disposition (stem @ ''_HATCHED.dxf''))])))))))))"
      using ext parsed layer Some
      by (auto simp add: hatch_on_upload_def file_read_def ezdxf_read_def make_layers_one d_def
          simp del: make_layers.simps)
    with uncaught_not_http [OF uncaught_upload_tail] Some show ?thesis
      by simp
  qed
qed

text \<open>
  C10. The upload handler raises an \<open>HTTPException\<close> of status 400 exactly when the
  extension check fails, or the parser raises, or the content parses, the layer step
  returns and the scan of the model space finds no \<open>CIRCLE\<close>. The handler raises no
  \<open>HTTPException\<close> of another status, and whether it raises one does not depend on the
  spacing and the angle: no value of either, zero, negative or not a number, is rejected.
\<close>

theorem upload_rejection_causes:
  "((\<exists>m. fst (hatch_on_upload L f s a lh) = Inl (HTTPException 400 m)) \<longleftrightarrow>
      \<not> endswith (lower (filename f)) ''.dxf'' \<or>
      (\<exists>e. ez_read L (file_content f) = Inl e) \<or>
      (\<exists>doc. ez_read L (file_content f) = Inr doc \<and>
         (has_layer L lh doc \<or> ez_fault L (Layers_new lh) doc = None) \<and>
         find (\<lambda>e. dxftype e = ''CIRCLE'') (msp doc) = None)) \<and>
   (fst (hatch_on_upload L f s a lh) = Inl (HTTPException code m) \<longrightarrow> code = 400) \<and>
   ((\<exists>m. fst (hatch_on_upload L f s a lh) = Inl (HTTPException 400 m)) \<longleftrightarrow>
    (\<exists>m. fst (hatch_on_upload L f s' a' lh) = Inl (HTTPException 400 m)))"
proof (cases "endswith (lower (filename f)) ''.dxf''")
  case False
  then show ?thesis
    by (simp add: upload_bad_extension)
next
  case ext: True
  show ?thesis
  proof (cases "ez_read L (file_content f)")
    case (Inl e)
    with ext show ?thesis
      by (simp add: upload_parse_failure)
  next
    case (Inr doc)
    note after = upload_after_parse [OF ext Inr]
    have "fst (hatch_on_upload L f s a lh) = Inl (HTTPException code m) \<longrightarrow> code = 400"
      using after [of s a lh code] by blast
    with ext Inr after [of s a lh 400] after [of s' a' lh 400] show ?thesis
      by simp
  qed
qed

theorem upload_rejection_causes_witness:
  "(\<exists>m. fst (hatch_on_upload sample_env \<lparr>filename = ''plan.pdf'', file_content = [1]\<rparr>
       NegInf NaN ''HATCH'') = Inl (HTTPException 400 m)) \<and>
   \<not> (\<exists>m. fst (hatch_on_upload sample_env \<lparr>filename = ''part.dxf'', file_content = [1]\<rparr>
       (Finite (- 1)) NaN ''HATCH'') = Inl (HTTPException 400 m))"
proof -
  let ?bad = "\<lparr>filename = ''plan.pdf'', file_content = [1 :: byte]\<rparr>"
  let ?good = "\<lparr>filename = ''part.dxf'', file_content = [1 :: byte]\<rparr>"
  have bad: "\<not> endswith (lower (filename ?bad)) ''.dxf''"
    by (simp add: endswith_def lower_def lower_char_def)
  have good: "endswith (lower (filename ?good)) ''.dxf''"
    by (simp add: endswith_def lower_def lower_char_def)
  have circle: "find (\<lambda>e. dxftype e = ''CIRCLE'')
      (msp (sample_doc [Other ''LINE'',
              Circle [Finite 1, Finite 2, Finite 0] (Finite 3) ''0'',
              Circle [Finite 5, Finite 5, Finite 0] (Finite 7) ''0''])) \<noteq> None"
    by (simp add: sample_doc_def)
  from upload_rejection_causes [of sample_env ?bad NegInf NaN "''HATCH''"] bad
  have one: "\<exists>m. fst (hatch_on_upload sample_env ?bad NegInf NaN ''HATCH'') =
      Inl (HTTPException 400 m)"
    by blast
  from upload_rejection_causes [of sample_env ?good "Finite (- 1)" NaN "''HATCH''"] good circle
  have two: "\<not> (\<exists>m. fst (hatch_on_upload sample_env ?good (Finite (- 1)) NaN ''HATCH'') =
      Inl (HTTPException 400 m))"
    by simp
  from one two show ?thesis by blast
qed

section \<open>The generate handler\<close>

subsection \<open>The stages of a run\<close>

lemma generate_stages:
  "generate L p =
     (case doc_with_units L (version p) of
        (Inl e, t1) \<Rightarrow> (Inl e, t1)
      | (Inr d1, t1) \<Rightarrow>
     (case make_layers L d1 [layer_circle p, layer_hatch p] of
        (Inl e, t2) \<Rightarrow> (Inl e, t1 @ t2)
      | (Inr d2, t2) \<Rightarrow>
     (case add_circle_with_hatch L d2 (center_x p) (center_y p) (radius p) (spacing p)
             (angle_deg p) (layer_circle p) (layer_hatch p) of
        (Inl e, t3) \<Rightarrow> (Inl e, t1 @ t2 @ t3)
      | (Inr d3, t3) \<Rightarrow>
     (case ez_saveas L d3 of
        Inl x \<Rightarrow> (Inl (Unhandled x), t1 @ t2 @ t3 @ [Raised (Saveas d3) x])
      | Inr bs \<Rightarrow>
     (case float_int (angle_deg p) of
        Inl x \<Rightarrow> (Inl (Unhandled x), t1 @ t2 @ t3 @ [Lib (Saveas d3)])
      | Inr angle \<Rightarrow>
          (if latin1 (float_str L (spacing p))
           then Inr \<lparr>content = \<lparr>data = bs, pos = 0\<rparr>, media_type = ''application/dxf'',
              headers =
                [(''Content-Disposition'',
                  content_disposition
                    (''circle_hatch_'' @ float_str L (spacing p) @ ''mm_'' @
                     str_int angle @ ''deg.dxf''))]\<rparr>
           else Inl (Unhandled (Exn ''UnicodeEncodeError'' ''latin-1'')),
           t1 @ t2 @ t3 @ [Lib (Saveas d3)]))))))"
  by (simp add: generate_def then_do_def saveas_def BytesIO_def bytesio_write_def seek_def
      streaming_response_one latin1_content_disposition
      del: make_layers.simps split: prod.splits sum.splits)

lemma doc_with_units_result:
  assumes "doc_with_units L v = (r, t)"
  shows "\<forall>d. Saveas d \<notin> set (calls t)"
    and "r = Inr d1 \<Longrightarrow>
      \<exists>d0. ez_new L v = Inr d0 \<and> d1 = d0\<lparr>header := (header d0)(''$INSUNITS'' \<mapsto> HInt 4)\<rparr>"
    and "r = Inl e \<Longrightarrow> \<exists>c x. Raised c x \<in> set t"
  using assms
  by (auto simp add: doc_with_units_def ezdxf_new_def lib_call_def
      split: sum.splits option.splits)

lemma add_circle_with_hatch_result:
  assumes "add_circle_with_hatch L doc cx cy r s a lc lh = (res, t)"
  shows "\<forall>d. Saveas d \<notin> set (calls t)"
    and "res = Inr d' \<Longrightarrow>
      d' = doc\<lparr>msp := msp doc @
        [Circle [cx, cy] r lc,
         Hatch \<lparr>hatch_layer = lh, associative = True, paths = [CirclePath [cx, cy] r],
           pattern_fill = Some \<lparr>pat_name = ''ANSI31'', pat_angle = a, pat_scale = s\<rparr>\<rparr>]\<rparr>"
    and "res = Inl e \<Longrightarrow> \<exists>c x. Raised c x \<in> set t"
  using assms
  by (auto simp add: add_circle_with_hatch_def call_defs lib_call_def at_hatch_def
      nth_append list_update_append split: option.splits)

lemma make_layers_calls: "Saveas d \<notin> set (calls (snd (make_layers L doc names)))"
proof (induction names arbitrary: doc)
  case Nil
  show ?case by simp
next
  case (Cons name names)
  show ?case
    using Cons.IH
    by (cases "ez_fault L (Layers_new name) doc") (simp_all add: layers_new_def)
qed

lemma make_layers_fails:
  "fst (make_layers L doc names) = Inl e \<Longrightarrow>
   \<exists>c x. Raised c x \<in> set (snd (make_layers L doc names))"
proof (induction names arbitrary: doc)
  case Nil
  then show ?case by simp
next
  case (Cons name names)
  show ?case
  proof (cases "has_layer L name doc")
    case True
    with Cons show ?thesis by simp
  next
    case False
    show ?thesis
    proof (cases "ez_fault L (Layers_new name) doc")
      case (Some x)
      with False show ?thesis by (auto simp add: layers_new_def)
    next
      case None
      with False Cons.prems
      have "fst (make_layers L (doc\<lparr>layers := layers doc @ [name]\<rparr>) names) = Inl e"
        by (simp add: layers_new_def)
      from Cons.IH [OF this] None False show ?thesis
        by (auto simp add: layers_new_def)
    qed
  qed
qed

lemma has_layer_append [simp]:
  "has_layer L n (doc\<lparr>layers := layers doc @ [name]\<rparr>) \<longleftrightarrow>
     has_layer L n doc \<or> ez_key L n = ez_key L name"
  by (auto simp add: has_layer_def)

lemma make_layers_result:
  assumes "fst (make_layers L doc names) = Inr doc'"
  shows "header doc' = header doc \<and> msp doc' = msp doc \<and>
    (\<forall>n. has_layer L n doc \<longrightarrow> has_layer L n doc') \<and>
    (\<forall>n\<in>set names. has_layer L n doc') \<and>
    (distinct (map (ez_key L) (layers doc)) \<longrightarrow> distinct (map (ez_key L) (layers doc')))"
  using assms
proof (induction names arbitrary: doc)
  case Nil
  then show ?case by simp
next
  case (Cons name names)
  show ?case
  proof (cases "has_layer L name doc")
    case True
    with Cons.prems have "fst (make_layers L doc names) = Inr doc'" by simp
    from Cons.IH [OF this] True show ?thesis by simp
  next
    case False
    show ?thesis
    proof (cases "ez_fault L (Layers_new name) doc")
      case (Some x)
      with False Cons.prems show ?thesis by (simp add: layers_new_def)
    next
      case None
      let ?d = "doc\<lparr>layers := layers doc @ [name]\<rparr>"
      from None False Cons.prems have "fst (make_layers L ?d names) = Inr doc'"
        by (simp add: layers_new_def)
      from Cons.IH [OF this] False show ?thesis
        by (auto simp add: has_layer_def)
    qed
  qed
qed

lemma make_layers_present:
  "\<forall>n\<in>set names. has_layer L n doc \<Longrightarrow> make_layers L doc names = (Inr doc, [])"
  by (induction names) simp_all

lemma count_key:
  "distinct (map f xs) \<Longrightarrow> k \<in> f ` set xs \<Longrightarrow> length (filter (\<lambda>n. f n = k) xs) = 1"
proof (induction xs)
  case Nil
  then show ?case by simp
next
  case (Cons x xs)
  show ?case
  proof (cases "f x = k")
    case True
    with Cons.prems have "filter (\<lambda>n. f n = k) xs = []"
      by (auto simp add: filter_empty_conv image_iff)
    with True show ?thesis by simp
  next
    case False
    with Cons show ?thesis by auto
  qed
qed

text \<open>
  \<open>_make_layers\<close> adds an entry for a key exactly when one of the names has that key
  and the table has no entry for it; every other key keeps its entries.
\<close>

lemma make_layers_count:
  assumes "fst (make_layers L doc names) = Inr doc'"
  shows "length (filter (\<lambda>m. ez_key L m = k) (layers doc')) =
     (if k \<in> ez_key L ` set names \<and> k \<notin> ez_key L ` set (layers doc) then 1
      else length (filter (\<lambda>m. ez_key L m = k) (layers doc)))"
  using assms
proof (induction names arbitrary: doc)
  case Nil
  then show ?case by simp
next
  case (Cons name names)
  show ?case
  proof (cases "has_layer L name doc")
    case True
    with Cons.prems have "fst (make_layers L doc names) = Inr doc'" by simp
    from Cons.IH [OF this] True show ?thesis
      by (auto simp add: has_layer_def)
  next
    case False
    show ?thesis
    proof (cases "ez_fault L (Layers_new name) doc")
      case (Some x)
      with False Cons.prems show ?thesis by (simp add: layers_new_def)
    next
      case None
      let ?d = "doc\<lparr>layers := layers doc @ [name]\<rparr>"
      from None False Cons.prems have "fst (make_layers L ?d names) = Inr doc'"
        by (simp add: layers_new_def)
      from Cons.IH [OF this] False show ?thesis
        by (auto simp add: has_layer_def filter_empty_conv image_iff)
    qed
  qed
qed

text \<open>The document a run serialises.\<close>

lemma generate_saved:
  assumes "Saveas d \<in> set (calls (snd (generate L p)))"
  shows "\<exists>d0 d2. ez_new L (version p) = Inr d0 \<and>
      fst (make_layers L (d0\<lparr>header := (header d0)(''$INSUNITS'' \<mapsto> HInt 4)\<rparr>)
        [layer_circle p, layer_hatch p]) = Inr d2 \<and>
      d = d2\<lparr>msp := msp d2 @
        [Circle [center_x p, center_y p] (radius p) (layer_circle p),
         Hatch \<lparr>hatch_layer = layer_hatch p, associative = True,
           paths = [CirclePath [center_x p, center_y p] (radius p)],
           pattern_fill = Some \<lparr>pat_name = ''ANSI31'', pat_angle = angle_deg p,
             pat_scale = spacing p\<rparr>\<rparr>]\<rparr>"
proof -
  obtain r1 t1 where s1: "doc_with_units L (version p) = (r1, t1)"
    by (cases "doc_with_units L (version p)")
  note u = doc_with_units_result [OF s1]
  show ?thesis
  proof (cases r1)
    case (Inl e)
    with s1 assms u(1) show ?thesis by (simp add: generate_stages)
  next
    case d1: (Inr d1)
    from u(2) [OF d1] obtain d0 where d0: "ez_new L (version p) = Inr d0"
      and d1_eq: "d1 = d0\<lparr>header := (header d0)(''$INSUNITS'' \<mapsto> HInt 4)\<rparr>"
      by blast
    obtain r2 t2 where s2: "make_layers L d1 [layer_circle p, layer_hatch p] = (r2, t2)"
      by (cases "make_layers L d1 [layer_circle p, layer_hatch p]")
    have c2: "\<forall>d. Saveas d \<notin> set (calls t2)"
      using make_layers_calls [of _ L d1 "[layer_circle p, layer_hatch p]"] s2
      by (simp del: make_layers.simps)
    show ?thesis
    proof (cases r2)
      case (Inl e)
      with s1 d1 s2 assms u(1) c2 show ?thesis
        by (simp add: generate_stages del: make_layers.simps)
    next
      case d2: (Inr d2)
      obtain r3 t3 where s3: "add_circle_with_hatch L d2 (center_x p) (center_y p) (radius p)
          (spacing p) (angle_deg p) (layer_circle p) (layer_hatch p) = (r3, t3)"
        by (cases "add_circle_with_hatch L d2 (center_x p) (center_y p) (radius p)
          (spacing p) (angle_deg p) (layer_circle p) (layer_hatch p)")
      note a = add_circle_with_hatch_result [OF s3]
      show ?thesis
      proof (cases r3)
        case (Inl e)
        with s1 d1 s2 d2 s3 assms u(1) c2 a(1) show ?thesis
          by (simp add: generate_stages del: make_layers.simps)
      next
        case d3: (Inr d3)
        from s1 d1 s2 d2 s3 d3 assms u(1) c2 a(1) have "d = d3"
          by (simp add: generate_stages del: make_layers.simps split: sum.splits)
        with a(2) [OF d3] d0 d1_eq s2 d2 show ?thesis
          by (simp del: make_layers.simps)
      qed
    qed
  qed
qed


lemma generate_layers_count:
  assumes new: "ez_new L (version p) = Inr d0"
    and saved: "Saveas d \<in> set (calls (snd (generate L p)))"
    and name: "n = layer_circle p \<or> n = layer_hatch p"
  shows "length (filter (\<lambda>m. ez_key L m = ez_key L n) (layers d)) =
     (if has_layer L n d0 then length (filter (\<lambda>m. ez_key L m = ez_key L n) (layers d0))
      else 1)"
proof -
  from generate_saved [OF saved] new obtain d2 where
    m: "fst (make_layers L (d0\<lparr>header := (header d0)(''$INSUNITS'' \<mapsto> HInt 4)\<rparr>)
        [layer_circle p, layer_hatch p]) = Inr d2"
    and d: "layers d = layers d2"
    by auto
  from make_layers_count [OF m, of "ez_key L n"] name show ?thesis
    unfolding d by (auto simp add: has_layer_def)
qed

lemma generate_layers:
  assumes new: "ez_new L (version p) = Inr d0"
    and dist: "distinct (map (ez_key L) (layers d0))"
    and saved: "Saveas d \<in> set (calls (snd (generate L p)))"
    and name: "n = layer_circle p \<or> n = layer_hatch p"
  shows "length (filter (\<lambda>m. ez_key L m = ez_key L n) (layers d)) = 1"
proof (cases "has_layer L n d0")
  case True
  with dist have "length (filter (\<lambda>m. ez_key L m = ez_key L n) (layers d0)) = 1"
    by (intro count_key) (simp_all add: has_layer_def)
  with generate_layers_count [OF new saved name] True show ?thesis by simp
next
  case False
  with generate_layers_count [OF new saved name] show ?thesis by simp
qed

text \<open>A run none of whose calls raised gets as far as the conversion of the angle.\<close>

lemma generate_returns:
  assumes quiet: "\<forall>c x. Raised c x \<notin> set (snd (generate L p))"
    and ang: "float_int (angle_deg p) = Inr n"
    and enc: "latin1 (float_str L (spacing p))"
  shows "\<exists>d bs pre. ez_saveas L d = Inr bs \<and>
    generate L p =
      (Inr \<lparr>content = \<lparr>data = bs, pos = 0\<rparr>, media_type = ''application/dxf'',
          headers =
            [(''Content-Disposition'',
              content_disposition
                (''circle_hatch_'' @ float_str L (spacing p) @ ''mm_'' @
                 str_int n @ ''deg.dxf''))]\<rparr>,
       pre @ [Lib (Saveas d)])"
proof -
  obtain r1 t1 where s1: "doc_with_units L (version p) = (r1, t1)"
    by (cases "doc_with_units L (version p)")
  have "\<exists>d1. r1 = Inr d1"
  proof (cases r1)
    case (Inl e)
    from doc_with_units_result(3) [OF s1 Inl] s1 Inl quiet show ?thesis
      by (auto simp add: generate_stages)
  qed simp
  then obtain d1 where d1: "r1 = Inr d1" ..
  obtain r2 t2 where s2: "make_layers L d1 [layer_circle p, layer_hatch p] = (r2, t2)"
    by (cases "make_layers L d1 [layer_circle p, layer_hatch p]")
  have "\<exists>d2. r2 = Inr d2"
  proof (cases r2)
    case (Inl e)
    from make_layers_fails [of L d1 "[layer_circle p, layer_hatch p]" e] s1 d1 s2 Inl quiet
    show ?thesis
      by (auto simp add: generate_stages simp del: make_layers.simps)
  qed simp
  then obtain d2 where d2: "r2 = Inr d2" ..
  obtain r3 t3 where s3: "add_circle_with_hatch L d2 (center_x p) (center_y p) (radius p)
      (spacing p) (angle_deg p) (layer_circle p) (layer_hatch p) = (r3, t3)"
    by (cases "add_circle_with_hatch L d2 (center_x p) (center_y p) (radius p)
      (spacing p) (angle_deg p) (layer_circle p) (layer_hatch p)")
  have "\<exists>d3. r3 = Inr d3"
  proof (cases r3)
    case (Inl e)
    from add_circle_with_hatch_result(3) [OF s3 Inl] s1 d1 s2 d2 s3 Inl quiet show ?thesis
      by (auto simp add: generate_stages simp del: make_layers.simps)
  qed simp
  then obtain d3 where d3: "r3 = Inr d3" ..
  have "\<exists>bs. ez_saveas L d3 = Inr bs"
  proof (cases "ez_saveas L d3")
    case (Inl x)
    with s1 d1 s2 d2 s3 d3 quiet show ?thesis
      by (auto simp add: generate_stages simp del: make_layers.simps)
  qed simp
  then obtain bs where s4: "ez_saveas L d3 = Inr bs" ..
  have "generate L p =
      (Inr \<lparr>content = \<lparr>data = bs, pos = 0\<rparr>, media_type = ''application/dxf'',
          headers =
            [(''Content-Disposition'',
              content_disposition
                (''circle_hatch_'' @ float_str L (spacing p) @ ''mm_'' @
                 str_int n @ ''deg.dxf''))]\<rparr>,
       (t1 @ t2 @ t3) @ [Lib (Saveas d3)])"
    using s1 d1 s2 d2 s3 d3 s4 ang enc by (simp add: generate_stages del: make_layers.simps)
  with s4 show ?thesis by blast
qed

lemma generate_response_name:
  assumes "fst (generate L p) = Inr resp"
  shows "\<exists>n. float_int (angle_deg p) = Inr n \<and> latin1 (float_str L (spacing p)) \<and>
    headers resp =
      [(''Content-Disposition'',
        content_disposition
          (''circle_hatch_'' @ float_str L (spacing p) @ ''mm_'' @ str_int n @ ''deg.dxf''))]"
  using assms
  by (auto simp add: generate_stages simp del: make_layers.simps
      split: prod.splits sum.splits if_splits)

lemma float_int_Inr:
  "float_int x = Inr n \<longleftrightarrow> (\<exists>a. x = Finite a \<and> n = (if a < 0 then \<lceil>a\<rceil> else \<lfloor>a\<rfloor>))"
  by (cases x) (auto simp add: ceiling_def)

lemmas run_defs = generate_def doc_with_units_def add_circle_with_hatch_def call_defs
  ezdxf_new_def saveas_def lib_call_def at_hatch_def sample_params_def sample_doc_def
  has_layer_def lower_def lower_char_def BytesIO_def bytesio_write_def seek_def
  streaming_response_one content_disposition_def

subsection \<open>The layers of the generated document\<close>

text \<open>
  C4, as the claim is worded: a valid request does not always end with both layers in
  a produced document. With a library that refuses the layer name \<open>a*b\<close>, the request
  for the hatch layer \<open>a*b\<close> ends with the library's exception at the layer step, after
  the circle layer was created: no document is produced.
\<close>

theorem generate_layer_refused_no_document:
  "valid_params (sample_params\<lparr>layer_hatch := ''a*b''\<rparr>) \<and>
   generate (faulty_env (Layers_new ''a*b'') (Exn ''DXFValueError'' ''a*b''))
       (sample_params\<lparr>layer_hatch := ''a*b''\<rparr>) =
     (Inl (Unhandled (Exn ''DXFValueError'' ''a*b'')),
      [Lib (Ezdxf_new ''R2018''), Lib (Header_set ''$INSUNITS'' (HInt 4)),
       Lib (Layers_new ''CIRCLE''),
       Raised (Layers_new ''a*b'') (Exn ''DXFValueError'' ''a*b'')])"
  by (simp add: valid_params_def run_defs)

text \<open>
  C4, amended. Let the library return the fresh document \<open>d0\<close> and let the run get as
  far as serialising a document \<open>d\<close>. For the circle layer and for the hatch layer, the
  layer table of \<open>d\<close> holds the name exactly once when \<open>d0\<close> does not hold it, and as
  often as \<open>d0\<close> holds it otherwise: the handler adds a missing name once, also when
  the two names are equal, and never adds a name that is present. So both names are in
  \<open>d\<close> exactly once whenever the table of \<open>d0\<close> names no layer twice. Creation is
  idempotent: for a name that is present \<open>_make_layers\<close> makes no library call, so it
  adds nothing and nothing can raise, and running \<open>_make_layers\<close> again on its own
  result changes nothing. Names are compared as the layer table compares them.
\<close>

theorem generate_layers_exactly_once:
  "(ez_new L (version p) = Inr d0 \<and> Saveas d \<in> set (calls (snd (generate L p))) \<and>
    (n = layer_circle p \<or> n = layer_hatch p) \<longrightarrow>
      length (filter (\<lambda>m. ez_key L m = ez_key L n) (layers d)) =
        (if has_layer L n d0
         then length (filter (\<lambda>m. ez_key L m = ez_key L n) (layers d0)) else 1) \<and>
      (distinct (map (ez_key L) (layers d0)) \<longrightarrow>
         length (filter (\<lambda>m. ez_key L m = ez_key L n) (layers d)) = 1)) \<and>
   (has_layer L name doc \<longrightarrow> make_layers L doc [name] = (Inr doc, [])) \<and>
   (fst (make_layers L doc names) = Inr doc' \<longrightarrow> make_layers L doc' names = (Inr doc', []))"
proof (intro conjI impI)
  assume a: "ez_new L (version p) = Inr d0 \<and> Saveas d \<in> set (calls (snd (generate L p))) \<and>
    (n = layer_circle p \<or> n = layer_hatch p)"
  then show "length (filter (\<lambda>m. ez_key L m = ez_key L n) (layers d)) =
        (if has_layer L n d0
         then length (filter (\<lambda>m. ez_key L m = ez_key L n) (layers d0)) else 1)"
    by (intro generate_layers_count [of L p d0 d n]) simp_all
  assume "distinct (map (ez_key L) (layers d0))"
  with a show "length (filter (\<lambda>m. ez_key L m = ez_key L n) (layers d)) = 1"
    by (intro generate_layers [of L p d0 d n]) simp_all
next
  assume "has_layer L name doc"
  then show "make_layers L doc [name] = (Inr doc, [])"
    by (simp add: make_layers_one del: make_layers.simps)
next
  assume "fst (make_layers L doc names) = Inr doc'"
  from make_layers_result [OF this] show "make_layers L doc' names = (Inr doc', [])"
    by (intro make_layers_present) simp
qed

theorem generate_layers_exactly_once_witness:
  "\<exists>d. Saveas d \<in> set (calls (snd (generate sample_env
            (sample_params\<lparr>layer_circle := ''HATCH''\<rparr>)))) \<and>
       layers d = [''0'', ''HATCH''] \<and>
       length (filter (\<lambda>m. lower m = lower ''HATCH'') (layers d)) = 1 \<and>
       make_layers sample_env d [''hatch''] = (Inr d, [])"
proof -
  let ?p = "sample_params\<lparr>layer_circle := ''HATCH''\<rparr>"
  let ?d = "\<lparr>header = [''$INSUNITS'' \<mapsto> HInt 4], layers = [''0'', ''HATCH''],
      msp = [Circle [Finite 0, Finite 0] (Finite 10) ''HATCH'',
        Hatch \<lparr>hatch_layer = ''HATCH'', associative = True,
          paths = [CirclePath [Finite 0, Finite 0] (Finite 10)],
          pattern_fill = Some \<lparr>pat_name = ''ANSI31'', pat_angle = Finite 45,
            pat_scale = Finite (1 / 5)\<rparr>\<rparr>]\<rparr>"
  have new: "ez_new sample_env (version ?p) = Inr (sample_doc [])"
    by (simp add: sample_params_def)
  have dist: "distinct (map (ez_key sample_env) (layers (sample_doc [])))"
    by (simp add: sample_doc_def)
  have saved: "Saveas ?d \<in> set (calls (snd (generate sample_env ?p)))"
    by (simp add: run_defs)
  have name: "''HATCH'' = layer_circle ?p \<or> ''HATCH'' = layer_hatch ?p"
    by simp
  have present: "has_layer sample_env ''hatch'' ?d"
    by (simp add: has_layer_def lower_def lower_char_def)
  note once = generate_layers_exactly_once
      [of sample_env ?p "sample_doc []" ?d "''HATCH''" "''hatch''" ?d]
  from once [THEN conjunct1] new saved name dist
  have "length (filter (\<lambda>m. ez_key sample_env m = ez_key sample_env ''HATCH'') (layers ?d)) = 1"
    by blast
  then have one: "length (filter (\<lambda>m. lower m = lower ''HATCH'') (layers ?d)) = 1"
    by (simp only: sample_fields)
  from once [THEN conjunct2, THEN conjunct1] present
  have "make_layers sample_env ?d [''hatch''] = (Inr ?d, [])"
    by blast
  with saved one show ?thesis
    by (intro exI [of _ ?d]) (simp del: make_layers.simps)
qed

subsection \<open>The name of the generated file\<close>

text \<open>
  C3, as the claim is worded: a valid request does not always get a response with that
  filename. The schema accepts any float as \<open>angle_deg\<close>, and for NaN the conversion
  \<open>int(params.angle_deg)\<close> raises \<open>ValueError\<close>: the handler returns no response, hence no
  filename.
\<close>

theorem generate_nan_angle_no_filename:
  "valid_params (sample_params\<lparr>angle_deg := NaN\<rparr>) \<and>
   fst (generate sample_env (sample_params\<lparr>angle_deg := NaN\<rparr>)) =
     Inl (Unhandled (Exn ''ValueError'' ''cannot convert float NaN to integer''))"
  by (simp add: valid_params_def run_defs)

text \<open>
  C3, amended. Every response of the generate handler carries the one header
  \<open>Content-Disposition\<close> with the filename \<open>circle_hatch_<spacing>mm_<angle>deg.dxf\<close>, where
  \<open><spacing>\<close> is the text Python gives the supplied spacing and \<open><angle>\<close> is the
  supplied \<open>angle_deg\<close>, which is then finite, truncated towards zero. The handler
  returns a response exactly when none of its library calls raises, \<open>angle_deg\<close> is
  finite and the text of the spacing can be encoded as Latin-1.
\<close>

theorem generate_filename:
  "(fst (generate L p) = Inr resp \<longrightarrow>
      (\<exists>a. angle_deg p = Finite a \<and>
        headers resp =
          [(''Content-Disposition'',
            content_disposition
              (''circle_hatch_'' @ float_str L (spacing p) @ ''mm_'' @
               str_int (if a < 0 then \<lceil>a\<rceil> else \<lfloor>a\<rfloor>) @ ''deg.dxf''))])) \<and>
   ((\<exists>resp. fst (generate L p) = Inr resp) \<longleftrightarrow>
      (\<forall>c x. Raised c x \<notin> set (snd (generate L p))) \<and>
      (\<exists>a. angle_deg p = Finite a) \<and> latin1 (float_str L (spacing p)))"
proof (intro conjI impI iffI)
  assume "fst (generate L p) = Inr resp"
  from generate_response_name [OF this] show "\<exists>a. angle_deg p = Finite a \<and>
        headers resp =
          [(''Content-Disposition'',
            content_disposition
              (''circle_hatch_'' @ float_str L (spacing p) @ ''mm_'' @
               str_int (if a < 0 then \<lceil>a\<rceil> else \<lfloor>a\<rfloor>) @ ''deg.dxf''))]"
    by (auto simp add: float_int_Inr)
next
  assume "\<exists>resp. fst (generate L p) = Inr resp"
  then obtain resp where r: "fst (generate L p) = Inr resp" ..
  with uncaught_generate [of L p] show "\<forall>c x. Raised c x \<notin> set (snd (generate L p))"
    by (simp add: uncaught_def)
  from generate_response_name [OF r] show "\<exists>a. angle_deg p = Finite a"
    by (auto simp add: float_int_Inr)
  from generate_response_name [OF r] show "latin1 (float_str L (spacing p))"
    by blast
next
  assume a: "(\<forall>c x. Raised c x \<notin> set (snd (generate L p))) \<and>
      (\<exists>a. angle_deg p = Finite a) \<and> latin1 (float_str L (spacing p))"
  then obtain n where "float_int (angle_deg p) = Inr n"
    by (auto simp add: float_int_Inr)
  from generate_returns [OF _ this] a show "\<exists>resp. fst (generate L p) = Inr resp"
    by force
qed

theorem generate_filename_witness:
  \<open>\<exists>resp. fst (generate sample_env sample_params) = Inr resp \<and>
     headers resp =
       [(''Content-Disposition'', ''attachment; filename="circle_hatch_0.2mm_45deg.dxf"'')]\<close>
proof -
  have quiet: "\<forall>c x. Raised c x \<notin> set (snd (generate sample_env sample_params))"
    by (simp add: run_defs)
  have ang: "angle_deg sample_params = Finite 45"
    by (simp add: sample_params_def)
  have enc: "latin1 (float_str sample_env (spacing sample_params))"
    by (simp add: sample_params_def)
  note name = generate_filename [of sample_env sample_params]
  from ang have "\<exists>a. angle_deg sample_params = Finite a" ..
  with name [THEN conjunct2] quiet enc
  obtain resp where r: "fst (generate sample_env sample_params) = Inr resp"
    by blast
  with generate_filename [of sample_env sample_params resp] ang
  have "headers resp =
      [(''Content-Disposition'',
        content_disposition
          (''circle_hatch_'' @ float_str sample_env (spacing sample_params) @ ''mm_'' @
           str_int 45 @ ''deg.dxf''))]"
    by auto
  then have "headers resp =
      [(''Content-Disposition'', ''attachment; filename=\"circle_hatch_0.2mm_45deg.dxf\"'')]"
    by (simp add: sample_params_def content_disposition_def str_int_def str_nat.simps
        digit_char_def)
  with r show ?thesis by blast
qed

subsection \<open>The generated stream\<close>




subsection \<open>Exceptions in the generate handler\<close>

text \<open>
  C8. The generate handler catches nothing. When a library call of a run raises the
  exception \<open>x\<close>, whichever call it is (creating the document, setting the header,
  creating a layer, adding the circle or the hatch, changing the hatch, serialising),
  the handler ends with \<open>x\<close> unhandled; every error of the handler is an unhandled
  exception, never an \<open>HTTPException\<close>, so the framework answers 500; an exception of
  \<open>ezdxf.new\<close> ends the handler at its first call. The upload handler, in contrast,
  turns the exception \<open>x\<close> of the parser into an \<open>HTTPException\<close> of status 400 that
  carries the message of \<open>x\<close>.
\<close>

theorem generate_catches_nothing:
  "(Raised c x \<in> set (snd (generate L p)) \<longrightarrow> fst (generate L p) = Inl (Unhandled x)) \<and>
   (fst (generate L p) = Inl e \<longrightarrow> (\<exists>y. e = Unhandled y) \<and> http_status e = 500) \<and>
   (ez_new L (version p) = Inl x \<longrightarrow>
      generate L p = (Inl (Unhandled x), [Raised (Ezdxf_new (version p)) x])) \<and>
   (endswith (lower (filename f)) ''.dxf'' \<and> ez_read L (file_content f) = Inl x \<longrightarrow>
      Raised (Ezdxf_read (file_content f)) x \<in> set (snd (hatch_on_upload L f s a lh)) \<and>
      fst (hatch_on_upload L f s a lh) =
        Inl (HTTPException 400 (''DXF non valido: '' @ exn_msg x)))"
proof (intro conjI impI)
  assume "Raised c x \<in> set (snd (generate L p))"
  with uncaught_generate show "fst (generate L p) = Inl (Unhandled x)"
    by (rule uncaught_raised)
next
  assume e: "fst (generate L p) = Inl e"
  from uncaught_error [OF uncaught_generate e]
  show "\<exists>y. e = Unhandled y" and "http_status e = 500" by simp_all
next
  assume "ez_new L (version p) = Inl x"
  then show "generate L p = (Inl (Unhandled x), [Raised (Ezdxf_new (version p)) x])"
    by (simp add: generate_def doc_with_units_def ezdxf_new_def)
next
  assume a: "endswith (lower (filename f)) ''.dxf'' \<and> ez_read L (file_content f) = Inl x"
  then have run: "hatch_on_upload L f s a lh =
     (Inl (HTTPException 400 (''DXF non valido: '' @ exn_msg x)),
      [File_read, Raised (Ezdxf_read (file_content f)) x])"
    by (intro upload_parse_failure) simp_all
  show "Raised (Ezdxf_read (file_content f)) x \<in> set (snd (hatch_on_upload L f s a lh))"
    and "fst (hatch_on_upload L f s a lh) =
        Inl (HTTPException 400 (''DXF non valido: '' @ exn_msg x))"
    unfolding run by simp_all
qed

theorem generate_catches_nothing_witness:
  "fst (generate sample_env (sample_params\<lparr>version := ''R9999''\<rparr>)) =
     Inl (Unhandled (Exn ''DXFVersionError'' ''R9999'')) \<and>
   fst (generate (faulty_env (Layers_new ''HATCH'') (Exn ''DXFValueError'' ''layer''))
          sample_params) = Inl (Unhandled (Exn ''DXFValueError'' ''layer'')) \<and>
   fst (generate (faulty_env (Msp_add_hatch ''HATCH'') (Exn ''DXFTypeError'' ''hatch''))
          sample_params) = Inl (Unhandled (Exn ''DXFTypeError'' ''hatch'')) \<and>
   fst (generate (sample_env\<lparr>ez_saveas := (\<lambda>doc. Inl (Exn ''OSError'' ''write''))\<rparr>)
          sample_params) = Inl (Unhandled (Exn ''OSError'' ''write''))"
proof -
  let ?p1 = "sample_params\<lparr>version := ''R9999''\<rparr>"
  let ?L2 = "faulty_env (Layers_new ''HATCH'') (Exn ''DXFValueError'' ''layer'')"
  let ?L3 = "faulty_env (Msp_add_hatch ''HATCH'') (Exn ''DXFTypeError'' ''hatch'')"
  let ?L4 = "sample_env\<lparr>ez_saveas := (\<lambda>doc. Inl (Exn ''OSError'' ''write''))\<rparr>"
  have r1: "Raised (Ezdxf_new ''R9999'') (Exn ''DXFVersionError'' ''R9999'')
      \<in> set (snd (generate sample_env ?p1))"
    by (simp add: run_defs)
  have r2: "Raised (Layers_new ''HATCH'') (Exn ''DXFValueError'' ''layer'')
      \<in> set (snd (generate ?L2 sample_params))"
    by (simp add: run_defs)
  have r3: "Raised (Msp_add_hatch ''HATCH'') (Exn ''DXFTypeError'' ''hatch'')
      \<in> set (snd (generate ?L3 sample_params))"
    by (simp add: run_defs)
  have "\<exists>d. Raised (Saveas d) (Exn ''OSError'' ''write'') \<in> set (snd (generate ?L4 sample_params))"
    by (simp add: run_defs)
  then obtain d where r4: "Raised (Saveas d) (Exn ''OSError'' ''write'')
      \<in> set (snd (generate ?L4 sample_params))" ..
  note c1 = generate_catches_nothing [THEN conjunct1, THEN mp, OF r1]
  note c2 = generate_catches_nothing [THEN conjunct1, THEN mp, OF r2]
  note c3 = generate_catches_nothing [THEN conjunct1, THEN mp, OF r3]
  note c4 = generate_catches_nothing [THEN conjunct1, THEN mp, OF r4]
  from c1 c2 c3 c4 show ?thesis by simp
qed

end
